theory Spec2Isabelle
  imports Main "HOL-Library.Word"
begin

section \<open>Values, errors and warnings\<close>

text \<open>
  The module \<^verbatim>\<open>cryptography/x509/general_name.py\<close> builds the GeneralName variants
  of X.509. Python text is a list of code points, a byte string is a list of 8-bit
  characters. The types \<^verbatim>\<open>Name\<close> and \<^verbatim>\<open>ObjectIdentifier\<close> are declared in other
  modules; they are the type parameters \<open>'n\<close> and \<open>'o\<close>, compared with \<open>=\<close>.
\<close>

type_synonym unicode = "nat list"
type_synonym bytes = "char list"

text \<open>
  The exceptions the module raises or lets through. In Python
  \<^verbatim>\<open>UnicodeEncodeError\<close>, \<^verbatim>\<open>UnicodeDecodeError\<close> and \<^verbatim>\<open>idna.IDNAError\<close> are
  subclasses of \<^verbatim>\<open>UnicodeError\<close>, itself a subclass of \<^verbatim>\<open>ValueError\<close>.
\<close>

datatype error =
    TypeError string
  | ValueError string
  | UnicodeEncodeError
  | UnicodeDecodeError
  | IDNAError

fun isinstance_TypeError :: "error \<Rightarrow> bool" where
  "isinstance_TypeError (TypeError m) = True"
| "isinstance_TypeError e = False"

fun isinstance_ValueError :: "error \<Rightarrow> bool" where
  "isinstance_ValueError (TypeError m) = False"
| "isinstance_ValueError e = True"

datatype warning = DeprecatedIn21 string

text \<open>
  The values a constructor of the module can be handed. \<open>NameV\<close> and
  \<open>ObjectIdentifierV\<close> carry any instance of \<^verbatim>\<open>Name\<close> and of \<^verbatim>\<open>ObjectIdentifier\<close>. The
  module \<^verbatim>\<open>ipaddress\<close> has six classes of values: addresses, networks, and the
  interfaces (an address with a prefix length), whose classes \<^verbatim>\<open>IPv4Interface\<close> and
  \<^verbatim>\<open>IPv6Interface\<close> are subclasses of \<^verbatim>\<open>IPv4Address\<close> and \<^verbatim>\<open>IPv6Address\<close>.
\<close>

datatype ('n, 'o) pyval =
    Text unicode
  | Bytes bytes
  | NameV 'n
  | ObjectIdentifierV 'o
  | IPv4Address "32 word"
  | IPv6Address "128 word"
  | IPv4Network "32 word" nat
  | IPv6Network "128 word" nat
  | IPv4Interface "32 word" nat
  | IPv6Interface "128 word" nat
  | IntV int
  | NoneV

text \<open>
  The class of a value, \<^verbatim>\<open>type(v)\<close>, the subclass relation among these classes, and
  \<^verbatim>\<open>isinstance(v, classes)\<close>, which holds when the class of the value is a subclass of
  one of the classes given.
\<close>

datatype pyclass =
    C_unicode
  | C_bytes
  | C_Name
  | C_ObjectIdentifier
  | C_IPv4Address
  | C_IPv6Address
  | C_IPv4Network
  | C_IPv6Network
  | C_IPv4Interface
  | C_IPv6Interface
  | C_int
  | C_NoneType

fun py_type :: "('n, 'o) pyval \<Rightarrow> pyclass" where
  "py_type (Text t) = C_unicode"
| "py_type (Bytes b) = C_bytes"
| "py_type (NameV n) = C_Name"
| "py_type (ObjectIdentifierV oid) = C_ObjectIdentifier"
| "py_type (IPv4Address a) = C_IPv4Address"
| "py_type (IPv6Address a) = C_IPv6Address"
| "py_type (IPv4Network a l) = C_IPv4Network"
| "py_type (IPv6Network a l) = C_IPv6Network"
| "py_type (IPv4Interface a l) = C_IPv4Interface"
| "py_type (IPv6Interface a l) = C_IPv6Interface"
| "py_type (IntV i) = C_int"
| "py_type NoneV = C_NoneType"

definition issubclass :: "pyclass \<Rightarrow> pyclass \<Rightarrow> bool" where
  "issubclass c d =
     (c = d \<or> (c = C_IPv4Interface \<and> d = C_IPv4Address)
            \<or> (c = C_IPv6Interface \<and> d = C_IPv6Address))"

definition isinstance :: "('n, 'o) pyval \<Rightarrow> pyclass list \<Rightarrow> bool" where
  "isinstance v classes = list_ex (issubclass (py_type v)) classes"

text \<open>A text literal of the source, \<^verbatim>\<open>u"..."\<close>, from its ASCII characters.\<close>

definition lit :: "string \<Rightarrow> unicode" where
  "lit s = map of_char s"

text \<open>\<^verbatim>\<open>s.encode("ascii")\<close> and \<^verbatim>\<open>b.decode("ascii")\<close>.\<close>

definition encode_ascii :: "unicode \<Rightarrow> error + bytes" where
  "encode_ascii s =
     (if list_all (\<lambda>c. c < 128) s then Inr (map char_of s) else Inl UnicodeEncodeError)"

definition decode_ascii :: "bytes \<Rightarrow> error + unicode" where
  "decode_ascii b =
     (if list_all (\<lambda>c. (of_char c :: nat) < 128) b then Inr (map of_char b)
      else Inl UnicodeDecodeError)"

text \<open>\<^verbatim>\<open>s.startswith(p)\<close>.\<close>

definition startswith :: "'a list \<Rightarrow> 'a list \<Rightarrow> bool" where
  "startswith s p = (take (length p) s = p)"

text \<open>\<^verbatim>\<open>s.split(sep)\<close> for a separator of one character.\<close>

fun split :: "'a \<Rightarrow> 'a list \<Rightarrow> 'a list list" where
  "split sep [] = [[]]"
| "split sep (x # xs) =
     (if x = sep then [] # split sep xs
      else (case split sep xs of
              [] \<Rightarrow> [[x]]
            | p # ps \<Rightarrow> (x # p) # ps))"

section \<open>The numeric-tag table\<close>

definition GENERAL_NAMES :: "int \<rightharpoonup> string" where
  "GENERAL_NAMES = map_of
     [(0, ''otherName''),
      (1, ''rfc822Name''),
      (2, ''dNSName''),
      (3, ''x400Address''),
      (4, ''directoryName''),
      (5, ''ediPartyName''),
      (6, ''uniformResourceIdentifier''),
      (7, ''iPAddress''),
      (8, ''registeredID'')]"

section \<open>RFC822Name\<close>

record RFC822Name =
  rfc822_value :: unicode
  rfc822_encoded :: bytes

text \<open>
  \<^verbatim>\<open>RFC822Name.__init__\<close>. The library functions \<^verbatim>\<open>email.utils.parseaddr\<close> and
  \<^verbatim>\<open>idna.encode\<close> are parameters. The operands of the concatenation are evaluated
  from left to right, so a local part outside ASCII fails before the domain is encoded.
\<close>

definition RFC822Name_init ::
  "(unicode \<Rightarrow> unicode \<times> unicode) \<Rightarrow> (unicode \<Rightarrow> error + bytes) \<Rightarrow>
   ('n, 'o) pyval \<Rightarrow> error + RFC822Name" where
  "RFC822Name_init parseaddr idna_encode v =
     (case v of
        Text val \<Rightarrow>
          (case parseaddr val of
             (name, address) \<Rightarrow>
               (let parts = split 64 address in
                if name \<noteq> [] \<or> address = [] then Inl (ValueError ''Invalid rfc822name value'')
                else if length parts = 1 then
                  (case encode_ascii address of
                     Inl e \<Rightarrow> Inl e
                   | Inr encoded \<Rightarrow> Inr \<lparr>rfc822_value = val, rfc822_encoded = encoded\<rparr>)
                else
                  (case encode_ascii (parts ! 0) of
                     Inl e \<Rightarrow> Inl e
                   | Inr l \<Rightarrow>
                       (case idna_encode (parts ! 1) of
                          Inl e \<Rightarrow> Inl e
                        | Inr d \<Rightarrow>
                            Inr \<lparr>rfc822_value = val, rfc822_encoded = l @ ''@'' @ d\<rparr>))))
      | _ \<Rightarrow> Inl (TypeError ''value must be a unicode string''))"

section \<open>DNSName\<close>

record DNSName =
  bytes_value :: bytes

text \<open>
  \<^verbatim>\<open>_idna_encode\<close>: the loop over the prefixes \<^verbatim>\<open>['*.', '.']\<close>, which returns at the
  first prefix the text starts with.
\<close>

fun idna_encode_loop ::
  "(unicode \<Rightarrow> error + bytes) \<Rightarrow> unicode \<Rightarrow> unicode list \<Rightarrow> error + bytes" where
  "idna_encode_loop idna_encode val [] = idna_encode val"
| "idna_encode_loop idna_encode val (prefix # rest) =
     (if startswith val prefix then
        (case encode_ascii prefix of
           Inl e \<Rightarrow> Inl e
         | Inr p \<Rightarrow>
             (case idna_encode (drop (length prefix) val) of
                Inl e \<Rightarrow> Inl e
              | Inr b \<Rightarrow> Inr (p @ b)))
      else idna_encode_loop idna_encode val rest)"

definition x_idna_encode :: "(unicode \<Rightarrow> error + bytes) \<Rightarrow> unicode \<Rightarrow> error + bytes" where
  "x_idna_encode idna_encode val = idna_encode_loop idna_encode val [lit ''*.'', lit ''.'']"

definition warn_idna_bytes :: warning where
  "warn_idna_bytes = DeprecatedIn21
     (''DNSName values should be passed as idna-encoded bytes, not strings. '' @
      ''Support for passing unicode strings will be removed in a future version.'')"

definition warn_bytes :: warning where
  "warn_bytes = DeprecatedIn21
     (''DNSName values should be passed as bytes, not strings. '' @
      ''Support for passing unicode strings will be removed in a future version.'')"

definition warn_bytes_value :: warning where
  "warn_bytes_value = DeprecatedIn21
     (''DNSName.bytes_value should be used instead of DNSName.value; it '' @
      ''contains the DNS name as raw bytes, instead of as an idna-decoded'' @
      '' unicode string. DNSName.value will be removed in a future version.'')"

text \<open>
  \<^verbatim>\<open>DNSName.__init__\<close>: the instance and the warnings emitted. A text that fails to
  encode raises before any warning.
\<close>

definition DNSName_init ::
  "(unicode \<Rightarrow> error + bytes) \<Rightarrow> ('n, 'o) pyval \<Rightarrow> error + DNSName \<times> warning list" where
  "DNSName_init idna_encode v =
     (case v of
        Text val \<Rightarrow>
          (case encode_ascii val of
             Inl e \<Rightarrow>
               (case x_idna_encode idna_encode val of
                  Inl e' \<Rightarrow> Inl e'
                | Inr b \<Rightarrow> Inr (\<lparr>bytes_value = b\<rparr>, [warn_idna_bytes]))
           | Inr b \<Rightarrow> Inr (\<lparr>bytes_value = b\<rparr>, [warn_bytes]))
      | Bytes b \<Rightarrow> Inr (\<lparr>bytes_value = b\<rparr>, [])
      | _ \<Rightarrow> Inl (TypeError ''value must be bytes''))"

text \<open>
  The property \<^verbatim>\<open>DNSName.value\<close>: the warning is emitted first, then the text is
  computed or the decoder's error raised. \<^verbatim>\<open>idna.decode\<close> is a parameter.
\<close>

definition DNSName_value ::
  "(bytes \<Rightarrow> error + unicode) \<Rightarrow> DNSName \<Rightarrow> warning list \<times> (error + unicode)" where
  "DNSName_value idna_decode self =
     ([warn_bytes_value],
      (let data = bytes_value self in
       if data = [] then Inr []
       else if startswith data ''*.'' then
         (case idna_decode (drop 2 data) of
            Inl e \<Rightarrow> Inl e
          | Inr t \<Rightarrow> Inr (lit ''*.'' @ t))
       else
         (case idna_decode data of
            Inl e \<Rightarrow> Inl e
          | Inr decoded \<Rightarrow>
              if startswith data ''.'' then Inr (lit ''.'' @ decoded) else Inr decoded)))"

section \<open>UniformResourceIdentifier\<close>

text \<open>
  What \<^verbatim>\<open>urllib_parse.urlparse\<close> returns: the six components, and the attributes
  \<^verbatim>\<open>hostname\<close> (which may be \<^verbatim>\<open>None\<close>) and \<^verbatim>\<open>port\<close> (which may be \<^verbatim>\<open>None\<close>, and
  whose evaluation may raise).
\<close>

record ParseResult =
  scheme :: unicode
  netloc :: unicode
  path :: unicode
  params :: unicode
  query :: unicode
  fragment :: unicode
  hostname :: "unicode option"
  port :: "error + int option"

record UniformResourceIdentifier =
  uri_value :: unicode
  uri_encoded :: bytes

text \<open>The decimal text of an integer, as \<^verbatim>\<open>"{0}".format(n)\<close> writes it.\<close>

function str_nat :: "nat \<Rightarrow> string" where
  "str_nat n =
     (if n < 10 then [char_of (48 + n)]
      else str_nat (n div 10) @ [char_of (48 + n mod 10)])"
  by pat_completeness auto
termination
  by (relation "measure id") auto

declare str_nat.simps [simp del]

definition str_int :: "int \<Rightarrow> string" where
  "str_int i = (if i < 0 then CHR ''-'' # str_nat (nat (- i)) else str_nat (nat i))"

definition format_port :: "int option \<Rightarrow> string" where
  "format_port p = (case p of None \<Rightarrow> ''None'' | Some n \<Rightarrow> str_int n)"

text \<open>The truth value Python gives \<^verbatim>\<open>parsed.hostname\<close> and \<^verbatim>\<open>parsed.port\<close>.\<close>

definition truthy_hostname :: "unicode option \<Rightarrow> bool" where
  "truthy_hostname h = (case h of None \<Rightarrow> False | Some t \<Rightarrow> t \<noteq> [])"

definition truthy_port :: "int option \<Rightarrow> bool" where
  "truthy_port p = (case p of None \<Rightarrow> False | Some n \<Rightarrow> n \<noteq> 0)"

text \<open>
  The \<^verbatim>\<open>if\<close>/\<^verbatim>\<open>elif\<close>/\<^verbatim>\<open>else\<close> of \<^verbatim>\<open>UniformResourceIdentifier.__init__\<close> that computes
  \<^verbatim>\<open>netloc\<close>. The port is read only when the host is present.
\<close>

definition URI_netloc :: "(unicode \<Rightarrow> error + bytes) \<Rightarrow> ParseResult \<Rightarrow> error + unicode" where
  "URI_netloc idna_encode parsed =
     (if \<not> truthy_hostname (hostname parsed) then Inr []
      else
        (case port parsed of
           Inl e \<Rightarrow> Inl e
         | Inr p \<Rightarrow>
             if truthy_port p then
               (case idna_encode (the (hostname parsed)) of
                  Inl e \<Rightarrow> Inl e
                | Inr hb \<Rightarrow>
                    (case encode_ascii (lit ('':'' @ format_port p)) of
                       Inl e \<Rightarrow> Inl e
                     | Inr pb \<Rightarrow> decode_ascii (hb @ pb)))
             else
               (case idna_encode (the (hostname parsed)) of
                  Inl e \<Rightarrow> Inl e
                | Inr hb \<Rightarrow> decode_ascii hb)))"

text \<open>
  \<^verbatim>\<open>UniformResourceIdentifier.__init__\<close>; \<^verbatim>\<open>urlparse\<close>, \<^verbatim>\<open>urlunparse\<close> and
  \<^verbatim>\<open>idna.encode\<close> are parameters.
\<close>

definition UniformResourceIdentifier_init ::
  "(unicode \<Rightarrow> error + ParseResult) \<Rightarrow>
   (unicode \<times> unicode \<times> unicode \<times> unicode \<times> unicode \<times> unicode \<Rightarrow> unicode) \<Rightarrow>
   (unicode \<Rightarrow> error + bytes) \<Rightarrow> ('n, 'o) pyval \<Rightarrow> error + UniformResourceIdentifier" where
  "UniformResourceIdentifier_init urlparse urlunparse idna_encode v =
     (case v of
        Text val \<Rightarrow>
          (case urlparse val of
             Inl e \<Rightarrow> Inl e
           | Inr parsed \<Rightarrow>
               (case URI_netloc idna_encode parsed of
                  Inl e \<Rightarrow> Inl e
                | Inr nl \<Rightarrow>
                    (case encode_ascii
                            (urlunparse (scheme parsed, nl, path parsed, params parsed,
                                         query parsed, fragment parsed)) of
                       Inl e \<Rightarrow> Inl e
                     | Inr uri \<Rightarrow> Inr \<lparr>uri_value = val, uri_encoded = uri\<rparr>)))
      | _ \<Rightarrow> Inl (TypeError ''value must be a unicode string''))"

section \<open>DirectoryName, RegisteredID, IPAddress, OtherName\<close>

record 'n DirectoryName =
  directory_value :: 'n

definition DirectoryName_init :: "('n, 'o) pyval \<Rightarrow> error + 'n DirectoryName" where
  "DirectoryName_init v =
     (case v of
        NameV n \<Rightarrow> Inr \<lparr>directory_value = n\<rparr>
      | _ \<Rightarrow> Inl (TypeError ''value must be a Name''))"

record 'o RegisteredID =
  registered_value :: 'o

definition RegisteredID_init :: "('n, 'o) pyval \<Rightarrow> error + 'o RegisteredID" where
  "RegisteredID_init v =
     (case v of
        ObjectIdentifierV oid \<Rightarrow> Inr \<lparr>registered_value = oid\<rparr>
      | _ \<Rightarrow> Inl (TypeError ''value must be an ObjectIdentifier''))"

record ('n, 'o) IPAddress =
  ip_value :: "('n, 'o) pyval"

text \<open>
  The test of \<^verbatim>\<open>IPAddress.__init__\<close>: \<^verbatim>\<open>isinstance\<close> with the four classes it lists.
\<close>

definition isinstance_ip :: "('n, 'o) pyval \<Rightarrow> bool" where
  "isinstance_ip v =
     isinstance v [C_IPv4Address, C_IPv6Address, C_IPv4Network, C_IPv6Network]"

definition IPAddress_init :: "('n, 'o) pyval \<Rightarrow> error + ('n, 'o) IPAddress" where
  "IPAddress_init v =
     (if \<not> isinstance_ip v then
        Inl (TypeError
          (''value must be an instance of ipaddress.IPv4Address, '' @
           ''ipaddress.IPv6Address, ipaddress.IPv4Network, or '' @
           ''ipaddress.IPv6Network''))
      else Inr \<lparr>ip_value = v\<rparr>)"

record 'o OtherName =
  other_type_id :: 'o
  other_value :: bytes

definition OtherName_init :: "('n, 'o) pyval \<Rightarrow> ('n, 'o) pyval \<Rightarrow> error + 'o OtherName" where
  "OtherName_init type_id v =
     (case type_id of
        ObjectIdentifierV oid \<Rightarrow>
          (case v of
             Bytes b \<Rightarrow> Inr \<lparr>other_type_id = oid, other_value = b\<rparr>
           | _ \<Rightarrow> Inl (TypeError ''value must be a binary string''))
      | _ \<Rightarrow> Inl (TypeError ''type_id must be an ObjectIdentifier''))"

section \<open>Equality\<close>

text \<open>
  The objects an \<^verbatim>\<open>__eq__\<close> of this module can be handed. \<^verbatim>\<open>__eq__\<close> returns
  \<^verbatim>\<open>NotImplemented\<close> (here \<open>None\<close>) when the other object is of another class.
\<close>

datatype ('n, 'o) general_name =
    GN_RFC822Name RFC822Name
  | GN_DNSName DNSName
  | GN_UniformResourceIdentifier UniformResourceIdentifier
  | GN_DirectoryName "'n DirectoryName"
  | GN_RegisteredID "'o RegisteredID"
  | GN_IPAddress "('n, 'o) IPAddress"
  | GN_OtherName "'o OtherName"

definition RFC822Name_eq :: "RFC822Name \<Rightarrow> ('n, 'o) general_name \<Rightarrow> bool option" where
  "RFC822Name_eq self other =
     (case other of
        GN_RFC822Name x \<Rightarrow> Some (rfc822_value self = rfc822_value x)
      | _ \<Rightarrow> None)"

definition DNSName_eq :: "DNSName \<Rightarrow> ('n, 'o) general_name \<Rightarrow> bool option" where
  "DNSName_eq self other =
     (case other of
        GN_DNSName x \<Rightarrow> Some (bytes_value self = bytes_value x)
      | _ \<Rightarrow> None)"

definition UniformResourceIdentifier_eq ::
  "UniformResourceIdentifier \<Rightarrow> ('n, 'o) general_name \<Rightarrow> bool option" where
  "UniformResourceIdentifier_eq self other =
     (case other of
        GN_UniformResourceIdentifier x \<Rightarrow> Some (uri_value self = uri_value x)
      | _ \<Rightarrow> None)"

definition OtherName_eq :: "'o OtherName \<Rightarrow> ('n, 'o) general_name \<Rightarrow> bool option" where
  "OtherName_eq self other =
     (case other of
        GN_OtherName x \<Rightarrow>
          Some (other_type_id self = other_type_id x \<and> other_value self = other_value x)
      | _ \<Rightarrow> None)"

section \<open>Library values for the instances\<close>

text \<open>
  The functions of \<^verbatim>\<open>idna\<close>, \<^verbatim>\<open>email.utils\<close> and \<^verbatim>\<open>urllib\<close> are parameters of the
  constructors, and the theorems hold for every such function. The concrete instances
  below need concrete functions: the ones here know the name of the specification's
  example, \<^verbatim>\<open>caf\<acute>e.com\<close> and \<^verbatim>\<open>xn--caf-dma.com\<close>, refuse a name with an empty label and
  pass any other ASCII name through.
\<close>

definition cafe_com :: unicode where
  "cafe_com = lit ''caf'' @ [233] @ lit ''.com''"

text \<open>A decoder that refuses an empty label, so also a name with a leading period.\<close>

definition strict_idna_decode :: "bytes \<Rightarrow> error + unicode" where
  "strict_idna_decode b =
     (if [] \<in> set (split CHR ''.'' b) then Inl IDNAError
      else if b = ''xn--caf-dma.com'' then Inr cafe_com
      else decode_ascii b)"

text \<open>A decoder that drops leading periods before it decodes.\<close>

definition lenient_idna_decode :: "bytes \<Rightarrow> error + unicode" where
  "lenient_idna_decode b = strict_idna_decode (dropWhile (\<lambda>c. c = CHR ''.'') b)"

definition sample_idna_encode :: "unicode \<Rightarrow> error + bytes" where
  "sample_idna_encode t =
     (if [] \<in> set (split 46 t) then Inl IDNAError
      else if t = cafe_com then Inr ''xn--caf-dma.com''
      else encode_ascii t)"

text \<open>
  What \<^verbatim>\<open>parseaddr\<close> returns for the specification's example with a display name; any
  other text is taken as a bare address with no display name.
\<close>

definition sample_parseaddr :: "unicode \<Rightarrow> unicode \<times> unicode" where
  "sample_parseaddr v =
     (if v = lit ''Name <user@example.com>'' then (lit ''Name'', lit ''user@example.com'')
      else ([], v))"

text \<open>
  What \<^verbatim>\<open>urlparse\<close> returns for two URIs with a host and a port; any other text is
  taken as a path with no host.
\<close>

definition sample_urlparse :: "unicode \<Rightarrow> error + ParseResult" where
  "sample_urlparse u =
     (if u = lit ''https://'' @ cafe_com @ lit '':8443/path'' then
        Inr \<lparr>scheme = lit ''https'', netloc = cafe_com @ lit '':8443'', path = lit ''/path'',
             params = [], query = [], fragment = [],
             hostname = Some cafe_com, port = Inr (Some 8443)\<rparr>
      else if u = lit ''https://example.com:0/path'' then
        Inr \<lparr>scheme = lit ''https'', netloc = lit ''example.com:0'', path = lit ''/path'',
             params = [], query = [], fragment = [],
             hostname = Some (lit ''example.com''), port = Inr (Some 0)\<rparr>
      else
        Inr \<lparr>scheme = [], netloc = [], path = u, params = [], query = [], fragment = [],
             hostname = None, port = Inr None\<rparr>)"

text \<open>
  \<^verbatim>\<open>urlunparse\<close> for components with a network location: parameters after \<^verbatim>\<open>;\<close>, the
  location after \<^verbatim>\<open>//\<close>, the scheme before \<^verbatim>\<open>:\<close>, the query after \<^verbatim>\<open>?\<close> and the
  fragment after \<^verbatim>\<open>#\<close>.
\<close>

definition sample_urlunparse ::
  "unicode \<times> unicode \<times> unicode \<times> unicode \<times> unicode \<times> unicode \<Rightarrow> unicode" where
  "sample_urlunparse c =
     (case c of (s, n, u, p, q, f) \<Rightarrow>
        (let url1 = (if p \<noteq> [] then u @ lit '';'' @ p else u);
             url2 = (if n \<noteq> [] then
                       lit ''//'' @ n @
                         (if url1 \<noteq> [] \<and> \<not> startswith url1 (lit ''/'') then lit ''/'' @ url1
                          else url1)
                     else url1);
             url3 = (if s \<noteq> [] then s @ lit '':'' @ url2 else url2);
             url4 = (if q \<noteq> [] then url3 @ lit ''?'' @ q else url3)
         in if f \<noteq> [] then url4 @ lit ''#'' @ f else url4))"

section \<open>Properties\<close>

subsection \<open>Auxiliary facts\<close>

lemma length_lit [simp]: "length (lit s) = length s"
  by (simp add: lit_def)

lemma map_char_of_lit [simp]: "map char_of (lit s) = s"
  by (simp add: lit_def)

lemma encode_ascii_lit:
  "list_all (\<lambda>c. (of_char c :: nat) < 128) s \<Longrightarrow> encode_ascii (lit s) = Inr s"
  by (simp add: encode_ascii_def lit_def list_all_iff comp_def)

lemma startswith_iff: "startswith t p = (\<exists>r. t = p @ r)"
  unfolding startswith_def by (metis append_take_drop_id append_eq_conv_conj)

lemma x_idna_encode_star:
  "startswith t (lit ''*.'') \<Longrightarrow>
   x_idna_encode enc t =
     (case enc (drop 2 t) of Inl e \<Rightarrow> Inl e | Inr b \<Rightarrow> Inr (''*.'' @ b))"
  by (simp add: x_idna_encode_def encode_ascii_lit eval_nat_numeral)

lemma not_star_of_dot: "startswith t (lit ''.'') \<Longrightarrow> \<not> startswith t (lit ''*.'')"
  by (cases t) (auto simp add: startswith_def lit_def)

lemma x_idna_encode_dot:
  "startswith t (lit ''.'') \<Longrightarrow>
   x_idna_encode enc t =
     (case enc (drop 1 t) of Inl e \<Rightarrow> Inl e | Inr b \<Rightarrow> Inr (''.'' @ b))"
  by (simp add: x_idna_encode_def encode_ascii_lit not_star_of_dot)

lemma x_idna_encode_plain:
  "\<not> startswith t (lit ''*.'') \<Longrightarrow> \<not> startswith t (lit ''.'') \<Longrightarrow>
   x_idna_encode enc t = enc t"
  by (simp add: x_idna_encode_def)

lemma DNSName_init_non_ascii:
  "\<not> list_all (\<lambda>c. c < 128) t \<Longrightarrow>
   DNSName_init enc (Text t) =
     (case x_idna_encode enc t of Inl e \<Rightarrow> Inl e
      | Inr b \<Rightarrow> Inr (\<lparr>bytes_value = b\<rparr>, [warn_idna_bytes]))"
  by (simp add: DNSName_init_def encode_ascii_def)

lemma DNSName_init_ascii:
  "list_all (\<lambda>c. c < 128) t \<Longrightarrow>
   DNSName_init enc (Text t) = Inr (\<lparr>bytes_value = map char_of t\<rparr>, [warn_bytes])"
  by (simp add: DNSName_init_def encode_ascii_def)

lemma DNSName_init_star:
  "startswith t (lit ''*.'') \<Longrightarrow> \<not> list_all (\<lambda>c. c < 128) t \<Longrightarrow>
   DNSName_init enc (Text t) =
     (case enc (drop 2 t) of
        Inl e \<Rightarrow> Inl e
      | Inr b \<Rightarrow> Inr (\<lparr>bytes_value = ''*.'' @ b\<rparr>, [warn_idna_bytes]))"
  by (simp add: DNSName_init_non_ascii x_idna_encode_star split: sum.splits)

lemma DNSName_init_dot:
  "startswith t (lit ''.'') \<Longrightarrow> \<not> list_all (\<lambda>c. c < 128) t \<Longrightarrow>
   DNSName_init enc (Text t) =
     (case enc (drop 1 t) of
        Inl e \<Rightarrow> Inl e
      | Inr b \<Rightarrow> Inr (\<lparr>bytes_value = ''.'' @ b\<rparr>, [warn_idna_bytes]))"
  by (simp add: DNSName_init_non_ascii x_idna_encode_dot split: sum.splits)

lemma DNSName_init_bytes:
  "DNSName_init enc (Bytes b) = Inr (\<lparr>bytes_value = b\<rparr>, [])"
  by (simp add: DNSName_init_def)

lemma DNSName_init_other:
  "(\<forall>t. v \<noteq> Text t) \<Longrightarrow> (\<forall>b. v \<noteq> Bytes b) \<Longrightarrow>
   DNSName_init enc v = Inl (TypeError ''value must be bytes'')"
  by (cases v) (simp_all add: DNSName_init_def)

lemma DNSName_value_star:
  "DNSName_value dec \<lparr>bytes_value = ''*.'' @ rest\<rparr> =
     ([warn_bytes_value],
      case dec rest of Inl e \<Rightarrow> Inl e | Inr t \<Rightarrow> Inr (lit ''*.'' @ t))"
  by (simp add: DNSName_value_def startswith_def)

lemma DNSName_value_dot:
  "DNSName_value dec \<lparr>bytes_value = ''.'' @ rest\<rparr> =
     ([warn_bytes_value],
      case dec (''.'' @ rest) of Inl e \<Rightarrow> Inl e | Inr t \<Rightarrow> Inr (lit ''.'' @ t))"
  by (simp add: DNSName_value_def startswith_def split: sum.splits)

lemma startswith_map_char_of:
  "startswith t (lit p) \<Longrightarrow> startswith (map char_of t) p"
  unfolding startswith_def
  by (metis length_lit length_map map_char_of_lit take_map)

lemma DNSName_init_keeps_prefix:
  assumes "DNSName_init enc (Text t) = Inr (d, w)"
    and "startswith t (lit p)" and "p = ''*.'' \<or> p = ''.''"
  shows "startswith (bytes_value d) p"
proof (cases "list_all (\<lambda>c. c < 128) t")
  case True
  with assms(1) have "bytes_value d = map char_of t"
    by (auto simp add: DNSName_init_ascii)
  with assms(2) show ?thesis by (simp add: startswith_map_char_of)
next
  case False
  from assms(3) show ?thesis
  proof
    assume p: "p = ''*.''"
    with assms(1,2) False show ?thesis
      by (auto simp add: DNSName_init_star startswith_def split: sum.splits)
  next
    assume p: "p = ''.''"
    with assms(1,2) False show ?thesis
      by (auto simp add: DNSName_init_dot startswith_def split: sum.splits)
  qed
qed

lemma not_star_of_dot_bytes: "startswith b ''.'' \<Longrightarrow> \<not> startswith b ''*.''"
  by (cases b) (auto simp add: startswith_def)

lemma DNSName_value_keeps_prefix:
  assumes "DNSName_value dec \<lparr>bytes_value = b\<rparr> = (w, Inr t)"
    and "startswith b p" and "p = ''*.'' \<or> p = ''.''"
  shows "startswith t (lit p)"
proof -
  from assms(2) obtain r where b: "b = p @ r"
    by (auto simp add: startswith_iff)
  from assms(3) show ?thesis
  proof
    assume p: "p = ''*.''"
    have "DNSName_value dec \<lparr>bytes_value = ''*.'' @ r\<rparr> = (w, Inr t)"
      using assms(1) b p by simp
    then have "(case dec r of Inl e \<Rightarrow> Inl e | Inr t \<Rightarrow> Inr (lit ''*.'' @ t)) = Inr t"
      by (simp only: DNSName_value_star prod.inject)
    then show ?thesis
      unfolding p by (cases "dec r") (auto simp add: startswith_def)
  next
    assume p: "p = ''.''"
    have "DNSName_value dec \<lparr>bytes_value = ''.'' @ r\<rparr> = (w, Inr t)"
      using assms(1) b p by simp
    then have "(case dec (''.'' @ r) of Inl e \<Rightarrow> Inl e | Inr t \<Rightarrow> Inr (lit ''.'' @ t)) = Inr t"
      by (simp only: DNSName_value_dot prod.inject)
    then show ?thesis
      unfolding p by (cases "dec (''.'' @ r)") (auto simp add: startswith_def)
  qed
qed

lemma tags_upto: "{0..8::int} = {0, 1, 2, 3, 4, 5, 6, 7, 8}"
  by auto

lemma dom_GENERAL_NAMES: "dom GENERAL_NAMES = {0..8}"
  unfolding tags_upto by (auto simp add: GENERAL_NAMES_def dom_map_of_conv_image_fst)

lemma ran_GENERAL_NAMES:
  "ran GENERAL_NAMES =
     {''otherName'', ''rfc822Name'', ''dNSName'', ''x400Address'', ''directoryName'',
      ''ediPartyName'', ''uniformResourceIdentifier'', ''iPAddress'', ''registeredID''}"
  unfolding GENERAL_NAMES_def by (subst ran_distinct) auto

lemma card_ran_GENERAL_NAMES: "card (ran GENERAL_NAMES) = 9"
  unfolding ran_GENERAL_NAMES by simp

lemma inj_on_GENERAL_NAMES: "inj_on GENERAL_NAMES {0..8}"
  unfolding tags_upto by (simp add: GENERAL_NAMES_def)

lemma bij_GENERAL_NAMES:
  "bij_betw (\<lambda>t. the (GENERAL_NAMES t)) {0..8} (ran GENERAL_NAMES)"
  unfolding bij_betw_def ran_GENERAL_NAMES tags_upto
  by (simp add: GENERAL_NAMES_def)

lemma split_not_Nil [simp]: "split sep xs \<noteq> []"
  by (induction xs) (auto split: list.splits)

lemma split_no_sep: "sep \<notin> set xs \<Longrightarrow> split sep xs = [xs]"
  by (induction xs) auto

lemma split_at_sep: "sep \<notin> set l \<Longrightarrow> split sep (l @ sep # d) = l # split sep d"
  by (induction l) auto

lemma split_one_sep:
  "sep \<notin> set l \<Longrightarrow> sep \<notin> set d \<Longrightarrow> split sep (l @ [sep] @ d) = [l, d]"
  by (simp add: split_at_sep split_no_sep)

lemma RFC822Name_init_invalid:
  "parseaddr val = (name, address) \<Longrightarrow> name \<noteq> [] \<or> address = [] \<Longrightarrow>
   RFC822Name_init parseaddr enc (Text val) = Inl (ValueError ''Invalid rfc822name value'')"
  by (auto simp add: RFC822Name_init_def Let_def)

lemma RFC822Name_init_bare:
  "parseaddr val = ([], address) \<Longrightarrow> address \<noteq> [] \<Longrightarrow> 64 \<notin> set address \<Longrightarrow>
   RFC822Name_init parseaddr enc (Text val) =
     (case encode_ascii address of
        Inl e \<Rightarrow> Inl e
      | Inr b \<Rightarrow> Inr \<lparr>rfc822_value = val, rfc822_encoded = b\<rparr>)"
  by (simp add: RFC822Name_init_def Let_def split_no_sep)

lemma RFC822Name_init_at:
  "parseaddr val = ([], user @ [64] @ domain) \<Longrightarrow> 64 \<notin> set user \<Longrightarrow> 64 \<notin> set domain \<Longrightarrow>
   RFC822Name_init parseaddr enc (Text val) =
     (case encode_ascii user of
        Inl e \<Rightarrow> Inl e
      | Inr l \<Rightarrow>
          (case enc domain of
             Inl e \<Rightarrow> Inl e
           | Inr d \<Rightarrow> Inr \<lparr>rfc822_value = val, rfc822_encoded = l @ ''@'' @ d\<rparr>))"
  using split_one_sep [of 64 user domain]
  by (simp add: RFC822Name_init_def Let_def cong: sum.case_cong)

lemma RFC822Name_init_value:
  "RFC822Name_init parseaddr enc v = Inr r \<Longrightarrow> v = Text (rfc822_value r)"
  by (cases v)
    (auto simp add: RFC822Name_init_def Let_def split: prod.splits if_splits sum.splits)

lemma RFC822Name_init_other:
  "(\<forall>val. v \<noteq> Text val) \<Longrightarrow>
   RFC822Name_init parseaddr enc v = Inl (TypeError ''value must be a unicode string'')"
  by (cases v) (simp_all add: RFC822Name_init_def)

lemma lit_eq_Nil [simp]: "lit s = [] \<longleftrightarrow> s = []"
  by (simp add: lit_def)

lemma str_nat_ascii: "list_all (\<lambda>c. (of_char c :: nat) < 128) (str_nat n)"
proof (induction n rule: str_nat.induct)
  case (1 n)
  show ?case
  proof (cases "n < 10")
    case True
    then show ?thesis by (subst str_nat.simps) simp
  next
    case False
    then have "n mod 10 < 10" by simp
    with 1 False show ?thesis by (subst str_nat.simps) simp
  qed
qed

lemma str_int_ascii: "list_all (\<lambda>c. (of_char c :: nat) < 128) (str_int i)"
  by (simp add: str_int_def str_nat_ascii)

lemma URI_netloc_no_host:
  "\<not> truthy_hostname (hostname parsed) \<Longrightarrow> URI_netloc enc parsed = Inr []"
  by (simp add: URI_netloc_def)

lemma URI_netloc_host:
  "hostname parsed = Some h \<Longrightarrow> h \<noteq> [] \<Longrightarrow> port parsed = Inr None \<Longrightarrow>
   URI_netloc enc parsed = (case enc h of Inl e \<Rightarrow> Inl e | Inr hb \<Rightarrow> decode_ascii hb)"
  by (simp add: URI_netloc_def truthy_hostname_def truthy_port_def)

lemma URI_netloc_host_port:
  "hostname parsed = Some h \<Longrightarrow> h \<noteq> [] \<Longrightarrow> port parsed = Inr (Some n) \<Longrightarrow> n \<noteq> 0 \<Longrightarrow>
   URI_netloc enc parsed =
     (case enc h of Inl e \<Rightarrow> Inl e | Inr hb \<Rightarrow> decode_ascii (hb @ '':'' @ str_int n))"
  by (simp add: URI_netloc_def truthy_hostname_def truthy_port_def format_port_def
      encode_ascii_lit str_int_ascii cong: sum.case_cong)

lemma URI_netloc_port_zero:
  "hostname parsed = Some h \<Longrightarrow> h \<noteq> [] \<Longrightarrow> port parsed = Inr (Some 0) \<Longrightarrow>
   URI_netloc enc parsed = (case enc h of Inl e \<Rightarrow> Inl e | Inr hb \<Rightarrow> decode_ascii hb)"
  by (simp add: URI_netloc_def truthy_hostname_def truthy_port_def)

lemma decode_ascii_ascii:
  "list_all (\<lambda>c. (of_char c :: nat) < 128) b \<Longrightarrow> decode_ascii b = Inr (lit b)"
  by (simp add: decode_ascii_def lit_def)

lemma str_int_8443: "str_int 8443 = ''8443''"
  by (simp add: str_int_def str_nat.simps char_of_eq_iff)

lemma UniformResourceIdentifier_init_value:
  "UniformResourceIdentifier_init urlparse urlunparse enc v = Inr r \<Longrightarrow> v = Text (uri_value r)"
  by (cases v) (auto simp add: UniformResourceIdentifier_init_def split: sum.splits)

lemma sample_idna_encode_cafe: "sample_idna_encode cafe_com = Inr ''xn--caf-dma.com''"
  by (simp add: sample_idna_encode_def cafe_com_def lit_def)

lemma sample_RFC822Name_postmaster:
  "RFC822Name_init sample_parseaddr sample_idna_encode (Text (lit ''postmaster'')) =
     Inr \<lparr>rfc822_value = lit ''postmaster'', rfc822_encoded = ''postmaster''\<rparr>"
proof -
  have "sample_parseaddr (lit ''postmaster'') = ([], lit ''postmaster'')"
    by (simp add: sample_parseaddr_def lit_def)
  moreover have "64 \<notin> set (lit ''postmaster'')"
    by (simp add: lit_def)
  ultimately show ?thesis
    by (simp add: RFC822Name_init_bare encode_ascii_lit)
qed

lemma sample_RFC822Name_cafe:
  "RFC822Name_init sample_parseaddr sample_idna_encode (Text (lit ''user@'' @ cafe_com)) =
     Inr \<lparr>rfc822_value = lit ''user@'' @ cafe_com, rfc822_encoded = ''user@xn--caf-dma.com''\<rparr>"
proof -
  have "sample_parseaddr (lit ''user@'' @ cafe_com) = ([], lit ''user'' @ [64] @ cafe_com)"
    by (simp add: sample_parseaddr_def cafe_com_def lit_def)
  moreover have "64 \<notin> set (lit ''user'')" "64 \<notin> set cafe_com"
    by (simp_all add: cafe_com_def lit_def)
  ultimately have "RFC822Name_init sample_parseaddr sample_idna_encode
      (Text (lit ''user@'' @ cafe_com)) =
     (case encode_ascii (lit ''user'') of
        Inl e \<Rightarrow> Inl e
      | Inr l \<Rightarrow>
          (case sample_idna_encode cafe_com of
             Inl e \<Rightarrow> Inl e
           | Inr d \<Rightarrow>
               Inr \<lparr>rfc822_value = lit ''user@'' @ cafe_com, rfc822_encoded = l @ ''@'' @ d\<rparr>))"
    by (rule RFC822Name_init_at)
  then show ?thesis
    by (simp add: encode_ascii_lit sample_idna_encode_cafe)
qed

lemma isinstance_ip_iff:
  "isinstance_ip v =
     ((\<exists>a. v = IPv4Address a) \<or> (\<exists>a. v = IPv6Address a)
      \<or> (\<exists>a l. v = IPv4Network a l) \<or> (\<exists>a l. v = IPv6Network a l)
      \<or> (\<exists>a l. v = IPv4Interface a l) \<or> (\<exists>a l. v = IPv6Interface a l))"
  by (cases v) (simp_all add: isinstance_ip_def isinstance_def issubclass_def)

lemma DirectoryName_init_other:
  "(\<forall>n. v \<noteq> NameV n) \<Longrightarrow> DirectoryName_init v = Inl (TypeError ''value must be a Name'')"
  by (cases v) (simp_all add: DirectoryName_init_def)

lemma RegisteredID_init_other:
  "(\<forall>oid. v \<noteq> ObjectIdentifierV oid) \<Longrightarrow>
   RegisteredID_init v = Inl (TypeError ''value must be an ObjectIdentifier'')"
  by (cases v) (simp_all add: RegisteredID_init_def)

lemma OtherName_init_value:
  "OtherName_init t v = Inr r \<Longrightarrow>
   t = ObjectIdentifierV (other_type_id r) \<and> v = Bytes (other_value r)"
  by (cases t; cases v) (auto simp add: OtherName_init_def)

lemma OtherName_init_bad_type_id:
  "(\<forall>oid. t \<noteq> ObjectIdentifierV oid) \<Longrightarrow>
   OtherName_init t v = Inl (TypeError ''type_id must be an ObjectIdentifier'')"
  by (cases t) (simp_all add: OtherName_init_def)

lemma OtherName_init_bad_value:
  "(\<forall>b. v \<noteq> Bytes b) \<Longrightarrow>
   OtherName_init (ObjectIdentifierV oid) v = Inl (TypeError ''value must be a binary string'')"
  by (cases v) (simp_all add: OtherName_init_def)

lemma takeWhile_no_sep: "sep \<notin> set xs \<Longrightarrow> takeWhile (\<lambda>c. c \<noteq> sep) xs = xs"
  by (induction xs) auto

lemma split_takeWhile:
  "split sep xs =
     (if sep \<in> set xs
      then takeWhile (\<lambda>c. c \<noteq> sep) xs # split sep (tl (dropWhile (\<lambda>c. c \<noteq> sep) xs))
      else [xs])"
  by (induction xs) (auto split: list.splits)

lemma split_length_one: "(length (split sep xs) = Suc 0) = (sep \<notin> set xs)"
  by (subst split_takeWhile) (simp add: length_Suc_conv)

lemma split_first: "split sep xs ! 0 = takeWhile (\<lambda>c. c \<noteq> sep) xs"
  by (subst split_takeWhile) (simp add: takeWhile_no_sep)

lemma split_second:
  "sep \<in> set xs \<Longrightarrow>
   split sep xs ! Suc 0 =
     takeWhile (\<lambda>c. c \<noteq> sep) (tl (dropWhile (\<lambda>c. c \<noteq> sep) xs))"
  by (subst split_takeWhile) (simp add: split_first)

lemma RFC822Name_init_text:
  assumes "parseaddr val = (name, address)"
  shows "RFC822Name_init parseaddr enc (Text val) =
     (if name \<noteq> [] \<or> address = [] then Inl (ValueError ''Invalid rfc822name value'')
      else if \<not> list_all (\<lambda>c. c < 128) (takeWhile (\<lambda>c. c \<noteq> 64) address)
        then Inl UnicodeEncodeError
      else if 64 \<notin> set address
        then Inr \<lparr>rfc822_value = val, rfc822_encoded = map char_of address\<rparr>
      else
        (case enc (takeWhile (\<lambda>c. c \<noteq> 64) (tl (dropWhile (\<lambda>c. c \<noteq> 64) address))) of
           Inl e \<Rightarrow> Inl e
         | Inr d \<Rightarrow>
             Inr \<lparr>rfc822_value = val,
                  rfc822_encoded = map char_of (takeWhile (\<lambda>c. c \<noteq> 64) address) @ ''@'' @ d\<rparr>))"
proof (cases "name \<noteq> [] \<or> address = []")
  case True
  with assms show ?thesis
    by (simp add: RFC822Name_init_invalid)
next
  case False
  then have n: "name = []" and a: "address \<noteq> []" by simp_all
  show ?thesis
  proof (cases "64 \<in> set address")
    case False
    with assms n a show ?thesis
      by (simp add: RFC822Name_init_bare takeWhile_no_sep encode_ascii_def)
  next
    case True
    with assms n a show ?thesis
      by (simp add: RFC822Name_init_def Let_def split_length_one split_first split_second
          encode_ascii_def cong: sum.case_cong)
  qed
qed

lemma sample_idna_encode_errors:
  "sample_idna_encode d = Inl e \<Longrightarrow> isinstance_ValueError e"
  by (auto simp add: sample_idna_encode_def encode_ascii_def split: if_splits)

subsection \<open>The claims\<close>

text \<open>
  C1 at bytes with a leading period, read with a decoder that refuses an empty label.
  The accessor hands the whole byte string \<^verbatim>\<open>.example.com\<close>, the period included, to the
  decoder, and raises its error; stripping the period, decoding the remainder
  \<^verbatim>\<open>example.com\<close> and putting the period back gives \<^verbatim>\<open>.example.com\<close>. With the same
  decoder the branch for \<^verbatim>\<open>*.\<close>, which strips the prefix first, reads
  \<^verbatim>\<open>*.example.com\<close> as \<^verbatim>\<open>*.example.com\<close>.
\<close>

theorem C1_dot_prefix_raises:
  "DNSName_value strict_idna_decode \<lparr>bytes_value = ''.example.com''\<rparr> =
      ([warn_bytes_value], Inl IDNAError)
   \<and> strict_idna_decode (drop 1 ''.example.com'') = Inr (lit ''example.com'')
   \<and> DNSName_value strict_idna_decode \<lparr>bytes_value = ''.example.com''\<rparr> \<noteq>
      ([warn_bytes_value],
       case strict_idna_decode (drop 1 ''.example.com'') of
         Inl e \<Rightarrow> Inl e
       | Inr t \<Rightarrow> Inr (lit ''.'' @ t))
   \<and> DNSName_value strict_idna_decode \<lparr>bytes_value = ''*.example.com''\<rparr> =
      ([warn_bytes_value], Inr (lit ''*.example.com''))"
  by (simp add: DNSName_value_def strict_idna_decode_def startswith_def decode_ascii_def lit_def)

text \<open>
  What the accessor does for every decoder: for bytes that start with \<^verbatim>\<open>*.\<close> it decodes
  the bytes after the prefix and puts \<^verbatim>\<open>*.\<close> before the result; for bytes that start
  with \<^verbatim>\<open>.\<close> it decodes the whole byte string and puts \<^verbatim>\<open>.\<close> before the result, which
  is the period before the decoded remainder whenever the decoder gives the same for the
  bytes with and without the leading period, as the source's comment expects of the
  library. Given the codec's values at the example name, \<^verbatim>\<open>*.xn--caf-dma.com\<close> reads as
  \<^verbatim>\<open>*.caf\<acute>e.com\<close> and that text is stored as \<^verbatim>\<open>*.xn--caf-dma.com\<close> again. Whenever
  reading and storing again both succeed, the text and the stored bytes start with the
  prefix the bytes started with.
\<close>

lemma DNSName_value_prefixes:
  assumes "idna_decode ''xn--caf-dma.com'' = Inr cafe_com"
    and "idna_encode cafe_com = Inr ''xn--caf-dma.com''"
  shows
    "(\<forall>rest. DNSName_value idna_decode \<lparr>bytes_value = ''*.'' @ rest\<rparr> =
        ([warn_bytes_value],
         case idna_decode rest of Inl e \<Rightarrow> Inl e | Inr t \<Rightarrow> Inr (lit ''*.'' @ t)))
     \<and> (\<forall>rest. DNSName_value idna_decode \<lparr>bytes_value = ''.'' @ rest\<rparr> =
        ([warn_bytes_value],
         case idna_decode (''.'' @ rest) of Inl e \<Rightarrow> Inl e | Inr t \<Rightarrow> Inr (lit ''.'' @ t)))
     \<and> (\<forall>rest. idna_decode (''.'' @ rest) = idna_decode rest \<longrightarrow>
        DNSName_value idna_decode \<lparr>bytes_value = ''.'' @ rest\<rparr> =
          ([warn_bytes_value],
           case idna_decode rest of Inl e \<Rightarrow> Inl e | Inr t \<Rightarrow> Inr (lit ''.'' @ t)))
     \<and> DNSName_value idna_decode \<lparr>bytes_value = ''*.xn--caf-dma.com''\<rparr> =
        ([warn_bytes_value], Inr (lit ''*.'' @ cafe_com))
     \<and> DNSName_init idna_encode (Text (lit ''*.'' @ cafe_com) :: ('n, 'o) pyval) =
        Inr (\<lparr>bytes_value = ''*.xn--caf-dma.com''\<rparr>, [warn_idna_bytes])
     \<and> (\<forall>b p t d w w'.
          (p = ''*.'' \<or> p = ''.'') \<and> startswith b p
          \<and> DNSName_value idna_decode \<lparr>bytes_value = b\<rparr> = (w, Inr t)
          \<and> DNSName_init idna_encode (Text t :: ('n, 'o) pyval) = Inr (d, w')
          \<longrightarrow> startswith t (lit p) \<and> startswith (bytes_value d) p)"
proof -
  have 1: "DNSName_value idna_decode \<lparr>bytes_value = ''*.xn--caf-dma.com''\<rparr> =
        ([warn_bytes_value], Inr (lit ''*.'' @ cafe_com))"
    using DNSName_value_star [of idna_decode "''xn--caf-dma.com''"] assms(1) by simp
  have na: "\<not> list_all (\<lambda>c. c < 128) (lit ''*.'' @ cafe_com)"
    by (simp add: cafe_com_def)
  have 2: "DNSName_init idna_encode (Text (lit ''*.'' @ cafe_com) :: ('n, 'o) pyval) =
        Inr (\<lparr>bytes_value = ''*.xn--caf-dma.com''\<rparr>, [warn_idna_bytes])"
    using DNSName_init_star [of "lit ''*.'' @ cafe_com" idna_encode] na assms(2)
    by (simp add: startswith_def)
  have 3: "startswith t (lit p) \<and> startswith (bytes_value d) p"
    if "(p = ''*.'' \<or> p = ''.'') \<and> startswith b p
          \<and> DNSName_value idna_decode \<lparr>bytes_value = b\<rparr> = (w, Inr t)
          \<and> DNSName_init idna_encode (Text t :: ('n, 'o) pyval) = Inr (d, w')"
    for b p t d w w'
  proof -
    from that have p: "p = ''*.'' \<or> p = ''.''" and b: "startswith b p"
      and v: "DNSName_value idna_decode \<lparr>bytes_value = b\<rparr> = (w, Inr t)"
      and i: "DNSName_init idna_encode (Text t :: ('n, 'o) pyval) = Inr (d, w')"
      by simp_all
    from DNSName_value_keeps_prefix [OF v b p] have t: "startswith t (lit p)" .
    from DNSName_init_keeps_prefix [OF i t p] t show ?thesis by simp
  qed
  have 4: "DNSName_value idna_decode \<lparr>bytes_value = ''.'' @ rest\<rparr> =
          ([warn_bytes_value],
           case idna_decode rest of Inl e \<Rightarrow> Inl e | Inr t \<Rightarrow> Inr (lit ''.'' @ t))"
    if "idna_decode (''.'' @ rest) = idna_decode rest" for rest
    using DNSName_value_dot [of idna_decode rest] that by simp
  show ?thesis
    by (intro conjI allI impI DNSName_value_star DNSName_value_dot 1 2)
      (erule 4, erule 3 [THEN conjunct1], erule 3 [THEN conjunct2])
qed

text \<open>
  With the decoder that drops leading periods the accessor strips the prefix, decodes the
  remainder and puts the prefix back, for every byte string with a leading period.
\<close>

lemma DNSName_value_dot_lenient:
  "DNSName_value lenient_idna_decode \<lparr>bytes_value = ''.'' @ rest\<rparr> =
     ([warn_bytes_value],
      case lenient_idna_decode rest of Inl e \<Rightarrow> Inl e | Inr t \<Rightarrow> Inr (lit ''.'' @ t))"
proof -
  have "lenient_idna_decode (''.'' @ rest) = lenient_idna_decode rest"
    by (simp add: lenient_idna_decode_def)
  then show ?thesis
    using DNSName_value_dot [of lenient_idna_decode rest] by simp
qed

text \<open>
  Instances with the decoder that drops leading periods: the example name, the value of
  \<^verbatim>\<open>.example.com\<close>, which is \<^verbatim>\<open>.example.com\<close>, and the prefix kept by reading
  \<^verbatim>\<open>*.xn--caf-dma.com\<close> and storing the text again.
\<close>

lemma DNSName_value_prefixes_instance:
  "DNSName_value lenient_idna_decode \<lparr>bytes_value = ''*.xn--caf-dma.com''\<rparr> =
      ([warn_bytes_value], Inr (lit ''*.'' @ cafe_com))
   \<and> DNSName_init sample_idna_encode (Text (lit ''*.'' @ cafe_com) :: (nat, nat) pyval) =
      Inr (\<lparr>bytes_value = ''*.xn--caf-dma.com''\<rparr>, [warn_idna_bytes])
   \<and> DNSName_value lenient_idna_decode \<lparr>bytes_value = ''.example.com''\<rparr> =
      ([warn_bytes_value], Inr (lit ''.example.com''))
   \<and> startswith (lit ''*.'' @ cafe_com) (lit ''*.'')
   \<and> startswith (bytes_value \<lparr>bytes_value = ''*.xn--caf-dma.com''\<rparr>) ''*.''"
proof -
  have d: "lenient_idna_decode ''xn--caf-dma.com'' = Inr cafe_com"
    by (simp add: lenient_idna_decode_def strict_idna_decode_def)
  have e: "sample_idna_encode cafe_com = Inr ''xn--caf-dma.com''"
    by (simp add: sample_idna_encode_def cafe_com_def lit_def)
  have l: "lenient_idna_decode (''.'' @ ''example.com'') = lenient_idna_decode ''example.com''"
    by (simp add: lenient_idna_decode_def)
  have l': "lenient_idna_decode ''example.com'' = Inr (lit ''example.com'')"
    by (simp add: lenient_idna_decode_def strict_idna_decode_def decode_ascii_def lit_def)
  note T = DNSName_value_prefixes [where ?'n = nat and ?'o = nat,
      of lenient_idna_decode sample_idna_encode, OF d e]
  note T3 = T [THEN conjunct2, THEN conjunct2, THEN conjunct1, rule_format, OF l]
  note T4 = T [THEN conjunct2, THEN conjunct2, THEN conjunct2, THEN conjunct1]
  note T5 = T [THEN conjunct2, THEN conjunct2, THEN conjunct2, THEN conjunct2, THEN conjunct1]
  note T6 = T [THEN conjunct2, THEN conjunct2, THEN conjunct2, THEN conjunct2, THEN conjunct2,
      rule_format]
  have 3: "DNSName_value lenient_idna_decode \<lparr>bytes_value = ''.example.com''\<rparr> =
      ([warn_bytes_value], Inr (lit ''.example.com''))"
    using T3 l' by (simp add: lit_def)
  have s: "startswith ''*.xn--caf-dma.com'' ''*.''"
    by (simp add: startswith_def)
  have 6: "startswith (lit ''*.'' @ cafe_com) (lit ''*.'')
      \<and> startswith (bytes_value \<lparr>bytes_value = ''*.xn--caf-dma.com''\<rparr>) ''*.''"
    by (rule T6 [where p = "''*.''" and b = "''*.xn--caf-dma.com''"
          and w = "[warn_bytes_value]" and w' = "[warn_idna_bytes]"])
      (intro conjI disjI1 refl s T4 T5)
  show ?thesis
    using 6 by (intro conjI T4 T5 3) simp_all
qed

text \<open>
  C2, as the code has it: the tag table is defined on exactly the tags 0 to 8, no two
  tags share a name, tag 4 is \<^verbatim>\<open>directoryName\<close>, and the table is a bijection between
  the nine tags and the nine names it lists.
\<close>

theorem C2_GENERAL_NAMES:
  "dom GENERAL_NAMES = {0..8}
   \<and> inj_on GENERAL_NAMES {0..8}
   \<and> GENERAL_NAMES 4 = Some ''directoryName''
   \<and> bij_betw (\<lambda>t. the (GENERAL_NAMES t)) {0..8} (ran GENERAL_NAMES)
   \<and> ran GENERAL_NAMES =
       {''otherName'', ''rfc822Name'', ''dNSName'', ''x400Address'', ''directoryName'',
        ''ediPartyName'', ''uniformResourceIdentifier'', ''iPAddress'', ''registeredID''}
   \<and> card (ran GENERAL_NAMES) = 9"
  using dom_GENERAL_NAMES inj_on_GENERAL_NAMES bij_GENERAL_NAMES ran_GENERAL_NAMES
    card_ran_GENERAL_NAMES
  by (simp add: GENERAL_NAMES_def)

text \<open>
  C2 as stated speaks of eight names: the table lists nine, so no set of eight names is
  in bijection with the tags 0 to 8.
\<close>

theorem C2_counterexample:
  "card (ran GENERAL_NAMES) \<noteq> 8
   \<and> \<not> (\<exists>N. card N = 8 \<and> bij_betw (\<lambda>t. the (GENERAL_NAMES t)) {0..8} N)"
proof -
  have "N = ran GENERAL_NAMES" if "bij_betw (\<lambda>t. the (GENERAL_NAMES t)) {0..8} N" for N
    using that bij_GENERAL_NAMES by (simp add: bij_betw_def)
  then show ?thesis using card_ran_GENERAL_NAMES by auto
qed

text \<open>
  C3, as the code has it, for a codec whose errors are \<^verbatim>\<open>ValueError\<close>s (as
  \<^verbatim>\<open>idna.IDNAError\<close> is). The constructor is determined on every text: a parse with a
  display name or an empty address raises the constructor's own \<^verbatim>\<open>ValueError\<close>; otherwise
  a character outside ASCII before the first \<^verbatim>\<open>@\<close> (in the whole address when it has no
  \<^verbatim>\<open>@\<close>) raises \<^verbatim>\<open>UnicodeEncodeError\<close>; otherwise an address with no \<^verbatim>\<open>@\<close> is
  accepted; otherwise the codec is called on the part between the first \<^verbatim>\<open>@\<close> and the
  next, and its error, if any, is the constructor's. So construction from a text fails
  exactly in these four cases, every failure is a \<^verbatim>\<open>ValueError\<close> and none a
  \<^verbatim>\<open>TypeError\<close>, and a value that is not text raises \<^verbatim>\<open>TypeError\<close>.
\<close>

theorem C3_RFC822Name_errors:
  assumes "\<forall>d e. idna_encode d = Inl e \<longrightarrow> isinstance_ValueError e"
  shows
    "(\<forall>val name address. parseaddr val = (name, address) \<longrightarrow>
        RFC822Name_init parseaddr idna_encode (Text val :: ('n, 'o) pyval) =
          (if name \<noteq> [] \<or> address = [] then Inl (ValueError ''Invalid rfc822name value'')
           else if \<not> list_all (\<lambda>c. c < 128) (takeWhile (\<lambda>c. c \<noteq> 64) address)
             then Inl UnicodeEncodeError
           else if 64 \<notin> set address
             then Inr \<lparr>rfc822_value = val, rfc822_encoded = map char_of address\<rparr>
           else
             (case idna_encode
                     (takeWhile (\<lambda>c. c \<noteq> 64) (tl (dropWhile (\<lambda>c. c \<noteq> 64) address))) of
                Inl e \<Rightarrow> Inl e
              | Inr d \<Rightarrow>
                  Inr \<lparr>rfc822_value = val,
                       rfc822_encoded =
                         map char_of (takeWhile (\<lambda>c. c \<noteq> 64) address) @ ''@'' @ d\<rparr>)))
     \<and> (\<forall>val name address. parseaddr val = (name, address) \<longrightarrow>
        (\<exists>e. RFC822Name_init parseaddr idna_encode (Text val :: ('n, 'o) pyval) = Inl e) =
          (name \<noteq> [] \<or> address = []
           \<or> \<not> list_all (\<lambda>c. c < 128) (takeWhile (\<lambda>c. c \<noteq> 64) address)
           \<or> (64 \<in> set address
               \<and> (\<exists>e. idna_encode
                     (takeWhile (\<lambda>c. c \<noteq> 64) (tl (dropWhile (\<lambda>c. c \<noteq> 64) address))) =
                     Inl e))))
     \<and> (\<forall>val e. RFC822Name_init parseaddr idna_encode (Text val :: ('n, 'o) pyval) = Inl e \<longrightarrow>
          isinstance_ValueError e \<and> \<not> isinstance_TypeError e)
     \<and> (\<forall>val. fst (parseaddr val) \<noteq> [] \<or> snd (parseaddr val) = [] \<longrightarrow>
          RFC822Name_init parseaddr idna_encode (Text val :: ('n, 'o) pyval) =
            Inl (ValueError ''Invalid rfc822name value''))
     \<and> (\<forall>v :: ('n, 'o) pyval. (\<forall>val. v \<noteq> Text val) \<longrightarrow>
          RFC822Name_init parseaddr idna_encode v =
            Inl (TypeError ''value must be a unicode string''))
     \<and> isinstance_TypeError (TypeError ''value must be a unicode string'')
     \<and> \<not> isinstance_ValueError (TypeError ''value must be a unicode string'')"
proof -
  let ?dom = "\<lambda>address. takeWhile (\<lambda>c. c \<noteq> (64::nat)) (tl (dropWhile (\<lambda>c. c \<noteq> 64) address))"
  have 1: "RFC822Name_init parseaddr idna_encode (Text val :: ('n, 'o) pyval) =
          (if name \<noteq> [] \<or> address = [] then Inl (ValueError ''Invalid rfc822name value'')
           else if \<not> list_all (\<lambda>c. c < 128) (takeWhile (\<lambda>c. c \<noteq> 64) address)
             then Inl UnicodeEncodeError
           else if 64 \<notin> set address
             then Inr \<lparr>rfc822_value = val, rfc822_encoded = map char_of address\<rparr>
           else
             (case idna_encode (?dom address) of
                Inl e \<Rightarrow> Inl e
              | Inr d \<Rightarrow>
                  Inr \<lparr>rfc822_value = val,
                       rfc822_encoded =
                         map char_of (takeWhile (\<lambda>c. c \<noteq> 64) address) @ ''@'' @ d\<rparr>))"
    if "parseaddr val = (name, address)" for val name address
    using that by (rule RFC822Name_init_text)
  have 2: "(\<exists>e. RFC822Name_init parseaddr idna_encode (Text val :: ('n, 'o) pyval) = Inl e) =
          (name \<noteq> [] \<or> address = []
           \<or> \<not> list_all (\<lambda>c. c < 128) (takeWhile (\<lambda>c. c \<noteq> 64) address)
           \<or> (64 \<in> set address \<and> (\<exists>e. idna_encode (?dom address) = Inl e)))"
    if "parseaddr val = (name, address)" for val name address
    unfolding 1 [OF that] by (cases "idna_encode (?dom address)") auto
  have 3: "isinstance_ValueError e \<and> \<not> isinstance_TypeError e"
    if "RFC822Name_init parseaddr idna_encode (Text val :: ('n, 'o) pyval) = Inl e" for val e
  proof -
    obtain name address where p: "parseaddr val = (name, address)"
      by (cases "parseaddr val")
    have v: "isinstance_ValueError e"
      using that assms unfolding 1 [OF p]
      by (cases "idna_encode (?dom address)") (auto split: if_splits)
    then show ?thesis by (cases e) simp_all
  qed
  have 4: "RFC822Name_init parseaddr idna_encode (Text val :: ('n, 'o) pyval) =
            Inl (ValueError ''Invalid rfc822name value'')"
    if "fst (parseaddr val) \<noteq> [] \<or> snd (parseaddr val) = []" for val
    using that
    by (intro RFC822Name_init_invalid
          [of parseaddr val "fst (parseaddr val)" "snd (parseaddr val)"]) simp_all
  show ?thesis
    by (intro conjI allI impI)
      (erule 1, erule 2, erule 3 [THEN conjunct1], erule 3 [THEN conjunct2], erule 4,
       erule RFC822Name_init_other, simp_all)
qed

text \<open>
  Instances of C3: the example with a display name, the empty text, a domain with an
  empty label that the codec refuses, a bare local name that is accepted, and a byte
  string.
\<close>

theorem C3_witness:
  "RFC822Name_init sample_parseaddr sample_idna_encode
      (Text (lit ''Name <user@example.com>'') :: (nat, nat) pyval) =
     Inl (ValueError ''Invalid rfc822name value'')
   \<and> RFC822Name_init sample_parseaddr sample_idna_encode (Text [] :: (nat, nat) pyval) =
     Inl (ValueError ''Invalid rfc822name value'')
   \<and> RFC822Name_init sample_parseaddr sample_idna_encode
      (Text (lit ''user@a..b'') :: (nat, nat) pyval) = Inl IDNAError
   \<and> isinstance_ValueError IDNAError
   \<and> RFC822Name_init sample_parseaddr sample_idna_encode
      (Text (lit ''postmaster'') :: (nat, nat) pyval) =
     Inr \<lparr>rfc822_value = lit ''postmaster'', rfc822_encoded = ''postmaster''\<rparr>
   \<and> RFC822Name_init sample_parseaddr sample_idna_encode
      (Bytes ''user@example.com'' :: (nat, nat) pyval) =
     Inl (TypeError ''value must be a unicode string'')"
proof -
  have c: "\<forall>d e. sample_idna_encode d = Inl e \<longrightarrow> isinstance_ValueError e"
    by (auto dest: sample_idna_encode_errors)
  note T = C3_RFC822Name_errors [where ?'n = nat and ?'o = nat,
      of sample_idna_encode sample_parseaddr, OF c]
  note T1 = T [THEN conjunct1, rule_format]
  note T3 = T [THEN conjunct2, THEN conjunct2, THEN conjunct1, rule_format]
  note T4 = T [THEN conjunct2, THEN conjunct2, THEN conjunct2, THEN conjunct1, rule_format]
  note T5 = T [THEN conjunct2, THEN conjunct2, THEN conjunct2, THEN conjunct2, THEN conjunct1,
      rule_format]
  have 1: "RFC822Name_init sample_parseaddr sample_idna_encode
      (Text (lit ''Name <user@example.com>'') :: (nat, nat) pyval) =
     Inl (ValueError ''Invalid rfc822name value'')"
    by (rule T4) (simp add: sample_parseaddr_def lit_def)
  have 2: "RFC822Name_init sample_parseaddr sample_idna_encode (Text [] :: (nat, nat) pyval) =
     Inl (ValueError ''Invalid rfc822name value'')"
    by (rule T4) (simp add: sample_parseaddr_def lit_def)
  have p3: "sample_parseaddr (lit ''user@a..b'') = ([], lit ''user@a..b'')"
    by (simp add: sample_parseaddr_def lit_def)
  have 3: "RFC822Name_init sample_parseaddr sample_idna_encode
      (Text (lit ''user@a..b'') :: (nat, nat) pyval) = Inl IDNAError"
    unfolding T1 [OF p3] by (simp add: lit_def sample_idna_encode_def)
  have 4: "isinstance_ValueError IDNAError"
    using T3 [OF 3] by simp
  have p5: "sample_parseaddr (lit ''postmaster'') = ([], lit ''postmaster'')"
    by (simp add: sample_parseaddr_def lit_def)
  have 5: "RFC822Name_init sample_parseaddr sample_idna_encode
      (Text (lit ''postmaster'') :: (nat, nat) pyval) =
     Inr \<lparr>rfc822_value = lit ''postmaster'', rfc822_encoded = ''postmaster''\<rparr>"
    unfolding T1 [OF p5] by (simp add: lit_def char_of_eq_iff)
  have 6: "RFC822Name_init sample_parseaddr sample_idna_encode
      (Bytes ''user@example.com'' :: (nat, nat) pyval) =
     Inl (TypeError ''value must be a unicode string'')"
    by (rule T5) simp
  show ?thesis by (intro conjI 1 2 3 4 5 6)
qed

text \<open>
  C3 as stated fails in the direction "only if": the one-character text U+00E9 parses with
  no display name and a non-empty address, and the constructor fails with
  \<^verbatim>\<open>UnicodeEncodeError\<close>, which is a \<^verbatim>\<open>ValueError\<close>.
\<close>

theorem C3_counterexample:
  "RFC822Name_init sample_parseaddr sample_idna_encode (Text [233] :: (nat, nat) pyval) =
     Inl UnicodeEncodeError
   \<and> isinstance_ValueError UnicodeEncodeError
   \<and> sample_parseaddr [233] = ([], [233])"
  by (simp add: RFC822Name_init_def sample_parseaddr_def encode_ascii_def lit_def)

text \<open>
  C4: for a text whose parse has no display name and a non-empty address. When the
  address has no \<^verbatim>\<open>@\<close>, the encoded form is the ASCII encoding of the address, and the
  constructor fails with \<^verbatim>\<open>UnicodeEncodeError\<close>, a \<^verbatim>\<open>ValueError\<close>, when a character is
  outside ASCII. When the address is a local part, one \<^verbatim>\<open>@\<close> and a domain, the encoded
  form is the ASCII bytes of the local part, \<^verbatim>\<open>@\<close>, and the codec's encoding of the
  domain. In both cases the text given is kept as the value.
\<close>

theorem C4_RFC822Name_encoded:
  assumes "parseaddr val = ([], address)" and "address \<noteq> []"
  shows
    "(64 \<notin> set address \<longrightarrow>
        RFC822Name_init parseaddr idna_encode (Text val :: ('n, 'o) pyval) =
          (case encode_ascii address of
             Inl e \<Rightarrow> Inl e
           | Inr b \<Rightarrow> Inr \<lparr>rfc822_value = val, rfc822_encoded = b\<rparr>))
     \<and> encode_ascii address =
          (if list_all (\<lambda>c. c < 128) address then Inr (map char_of address)
           else Inl UnicodeEncodeError)
     \<and> isinstance_ValueError UnicodeEncodeError
     \<and> (\<forall>user domain.
          address = user @ [64] @ domain \<and> 64 \<notin> set user \<and> 64 \<notin> set domain \<longrightarrow>
          RFC822Name_init parseaddr idna_encode (Text val :: ('n, 'o) pyval) =
            (case encode_ascii user of
               Inl e \<Rightarrow> Inl e
             | Inr l \<Rightarrow>
                 (case idna_encode domain of
                    Inl e \<Rightarrow> Inl e
                  | Inr d \<Rightarrow> Inr \<lparr>rfc822_value = val, rfc822_encoded = l @ ''@'' @ d\<rparr>)))
     \<and> (\<forall>r. RFC822Name_init parseaddr idna_encode (Text val :: ('n, 'o) pyval) = Inr r \<longrightarrow>
          rfc822_value r = val)"
proof (intro conjI allI impI)
  assume "64 \<notin> set address"
  with assms show "RFC822Name_init parseaddr idna_encode (Text val :: ('n, 'o) pyval) =
          (case encode_ascii address of
             Inl e \<Rightarrow> Inl e
           | Inr b \<Rightarrow> Inr \<lparr>rfc822_value = val, rfc822_encoded = b\<rparr>)"
    by (rule RFC822Name_init_bare)
next
  show "encode_ascii address =
          (if list_all (\<lambda>c. c < 128) address then Inr (map char_of address)
           else Inl UnicodeEncodeError)"
    by (simp add: encode_ascii_def)
next
  show "isinstance_ValueError UnicodeEncodeError" by simp
next
  fix user domain
  assume h: "address = user @ [64] @ domain \<and> 64 \<notin> set user \<and> 64 \<notin> set domain"
  with assms(1) have "parseaddr val = ([], user @ [64] @ domain)" by simp
  with h show "RFC822Name_init parseaddr idna_encode (Text val :: ('n, 'o) pyval) =
            (case encode_ascii user of
               Inl e \<Rightarrow> Inl e
             | Inr l \<Rightarrow>
                 (case idna_encode domain of
                    Inl e \<Rightarrow> Inl e
                  | Inr d \<Rightarrow> Inr \<lparr>rfc822_value = val, rfc822_encoded = l @ ''@'' @ d\<rparr>))"
    by (simp add: RFC822Name_init_at)
next
  fix r
  assume "RFC822Name_init parseaddr idna_encode (Text val :: ('n, 'o) pyval) = Inr r"
  from RFC822Name_init_value [OF this] show "rfc822_value r = val" by simp
qed

text \<open>Instances of C4: an address with a domain outside ASCII, and a bare local name.\<close>

theorem C4_witness:
  "RFC822Name_init sample_parseaddr sample_idna_encode
      (Text (lit ''user@'' @ cafe_com) :: (nat, nat) pyval) =
     Inr \<lparr>rfc822_value = lit ''user@'' @ cafe_com, rfc822_encoded = ''user@xn--caf-dma.com''\<rparr>
   \<and> RFC822Name_init sample_parseaddr sample_idna_encode
      (Text (lit ''postmaster'') :: (nat, nat) pyval) =
     Inr \<lparr>rfc822_value = lit ''postmaster'', rfc822_encoded = ''postmaster''\<rparr>"
proof -
  have e: "sample_idna_encode cafe_com = Inr ''xn--caf-dma.com''"
    by (simp add: sample_idna_encode_def cafe_com_def lit_def)
  have p1: "sample_parseaddr (lit ''user@'' @ cafe_com) = ([], lit ''user@'' @ cafe_com)"
    by (simp add: sample_parseaddr_def cafe_com_def lit_def)
  have n1: "lit ''user@'' @ cafe_com \<noteq> []"
    by (simp add: lit_def)
  have a1: "lit ''user@'' @ cafe_com = lit ''user'' @ [64] @ cafe_com
      \<and> 64 \<notin> set (lit ''user'') \<and> 64 \<notin> set cafe_com"
    by (simp add: cafe_com_def lit_def)
  note T1 = C4_RFC822Name_encoded [where ?'n = nat and ?'o = nat,
      of sample_parseaddr _ _ sample_idna_encode, OF p1 n1]
  note U1 = T1 [THEN conjunct2, THEN conjunct2, THEN conjunct2, THEN conjunct1, rule_format,
      OF a1]
  have 1: "RFC822Name_init sample_parseaddr sample_idna_encode
      (Text (lit ''user@'' @ cafe_com) :: (nat, nat) pyval) =
     Inr \<lparr>rfc822_value = lit ''user@'' @ cafe_com, rfc822_encoded = ''user@xn--caf-dma.com''\<rparr>"
    using U1 by (simp add: e encode_ascii_lit)
  have p2: "sample_parseaddr (lit ''postmaster'') = ([], lit ''postmaster'')"
    by (simp add: sample_parseaddr_def lit_def)
  have n2: "lit ''postmaster'' \<noteq> []"
    by (simp add: lit_def)
  have a2: "64 \<notin> set (lit ''postmaster'')"
    by (simp add: lit_def)
  note T2 = C4_RFC822Name_encoded [where ?'n = nat and ?'o = nat,
      of sample_parseaddr _ _ sample_idna_encode, OF p2 n2]
  note U2 = T2 [THEN conjunct1, rule_format, OF a2]
  have 2: "RFC822Name_init sample_parseaddr sample_idna_encode
      (Text (lit ''postmaster'') :: (nat, nat) pyval) =
     Inr \<lparr>rfc822_value = lit ''postmaster'', rfc822_encoded = ''postmaster''\<rparr>"
    using U2 by (simp add: encode_ascii_lit)
  show ?thesis by (intro conjI 1 2)
qed

text \<open>
  C5: a text outside ASCII that starts with \<^verbatim>\<open>*.\<close> or \<^verbatim>\<open>.\<close> is stored as the bytes of
  that prefix followed by the codec's encoding of the text after the prefix: the codec is
  handed the remainder only, and its failure is the constructor's. A text inside ASCII is
  stored as its ASCII bytes, a byte string as it is, and any other value raises
  \<^verbatim>\<open>TypeError\<close>.
\<close>

theorem C5_DNSName_init:
  "(\<forall>t. startswith t (lit ''*.'') \<and> \<not> list_all (\<lambda>c. c < 128) t \<longrightarrow>
      DNSName_init idna_encode (Text t) =
        (case idna_encode (drop 2 t) of
           Inl e \<Rightarrow> Inl e
         | Inr b \<Rightarrow> Inr (\<lparr>bytes_value = ''*.'' @ b\<rparr>, [warn_idna_bytes])))
   \<and> (\<forall>t. startswith t (lit ''.'') \<and> \<not> list_all (\<lambda>c. c < 128) t \<longrightarrow>
      DNSName_init idna_encode (Text t) =
        (case idna_encode (drop 1 t) of
           Inl e \<Rightarrow> Inl e
         | Inr b \<Rightarrow> Inr (\<lparr>bytes_value = ''.'' @ b\<rparr>, [warn_idna_bytes])))
   \<and> (\<forall>t. list_all (\<lambda>c. c < 128) t \<longrightarrow>
      DNSName_init idna_encode (Text t) = Inr (\<lparr>bytes_value = map char_of t\<rparr>, [warn_bytes]))
   \<and> (\<forall>b. DNSName_init idna_encode (Bytes b) = Inr (\<lparr>bytes_value = b\<rparr>, []))
   \<and> (\<forall>v. (\<forall>t. v \<noteq> Text t) \<and> (\<forall>b. v \<noteq> Bytes b) \<longrightarrow>
      DNSName_init idna_encode v = Inl (TypeError ''value must be bytes''))"
  by (simp add: DNSName_init_star DNSName_init_dot DNSName_init_ascii DNSName_init_other
      DNSName_init_bytes)

theorem C5_witness:
  "DNSName_init sample_idna_encode (Text (lit ''*.'' @ cafe_com))
     = Inr (\<lparr>bytes_value = ''*.xn--caf-dma.com''\<rparr>, [warn_idna_bytes])
   \<and> DNSName_init sample_idna_encode (Text (lit ''.'' @ cafe_com))
     = Inr (\<lparr>bytes_value = ''.xn--caf-dma.com''\<rparr>, [warn_idna_bytes])
   \<and> DNSName_init sample_idna_encode (Text (lit ''*.example.com''))
     = Inr (\<lparr>bytes_value = ''*.example.com''\<rparr>, [warn_bytes])
   \<and> DNSName_init sample_idna_encode (IntV 7) = Inl (TypeError ''value must be bytes'')"
proof -
  note T = C5_DNSName_init [of sample_idna_encode]
  note T1 = T [THEN conjunct1, rule_format]
  note T2 = T [THEN conjunct2, THEN conjunct1, rule_format]
  note T3 = T [THEN conjunct2, THEN conjunct2, THEN conjunct1, rule_format]
  note T5 = T [THEN conjunct2, THEN conjunct2, THEN conjunct2, THEN conjunct2, rule_format]
  have a: "\<not> list_all (\<lambda>c. c < 128) (lit ''*.'' @ cafe_com)"
    and b: "\<not> list_all (\<lambda>c. c < 128) (lit ''.'' @ cafe_com)"
    and c: "list_all (\<lambda>c. c < 128) (lit ''*.example.com'')"
    by (simp_all add: cafe_com_def lit_def)
  have s: "startswith (lit ''*.'' @ cafe_com) (lit ''*.'')"
    and s': "startswith (lit ''.'' @ cafe_com) (lit ''.'')"
    by (simp_all add: startswith_def)
  have e: "sample_idna_encode cafe_com = Inr ''xn--caf-dma.com''"
    by (simp add: sample_idna_encode_def cafe_com_def lit_def)
  have 1: "DNSName_init sample_idna_encode (Text (lit ''*.'' @ cafe_com))
     = Inr (\<lparr>bytes_value = ''*.xn--caf-dma.com''\<rparr>, [warn_idna_bytes])"
    using T1 [OF conjI [OF s a]] by (simp add: e)
  have 2: "DNSName_init sample_idna_encode (Text (lit ''.'' @ cafe_com))
     = Inr (\<lparr>bytes_value = ''.xn--caf-dma.com''\<rparr>, [warn_idna_bytes])"
    using T2 [OF conjI [OF s' b]] by (simp add: e)
  have 3: "DNSName_init sample_idna_encode (Text (lit ''*.example.com''))
     = Inr (\<lparr>bytes_value = ''*.example.com''\<rparr>, [warn_bytes])"
    using T3 [OF c] by simp
  have 4: "DNSName_init sample_idna_encode (IntV 7) = Inl (TypeError ''value must be bytes'')"
    by (rule T5) simp
  show ?thesis by (intro conjI 1 2 3 4)
qed

text \<open>
  C6 at a URI whose port is 0: \<^verbatim>\<open>parsed.port\<close> is tested for truth, 0 is false, and the
  stored form is that of the URI without a port.
\<close>

theorem C6_port_zero_dropped:
  "UniformResourceIdentifier_init sample_urlparse sample_urlunparse sample_idna_encode
      (Text (lit ''https://example.com:0/path'') :: (nat, nat) pyval) =
     Inr \<lparr>uri_value = lit ''https://example.com:0/path'',
          uri_encoded = ''https://example.com/path''\<rparr>"
proof -
  let ?p = "\<lparr>scheme = lit ''https'', netloc = lit ''example.com:0'', path = lit ''/path'',
             params = [], query = [], fragment = [],
             hostname = Some (lit ''example.com''), port = Inr (Some 0)\<rparr>"
  have u: "sample_urlparse (lit ''https://example.com:0/path'') = Inr ?p"
    by (simp add: sample_urlparse_def lit_def cafe_com_def)
  have e: "sample_idna_encode (lit ''example.com'') = Inr ''example.com''"
    by (simp add: sample_idna_encode_def encode_ascii_lit) (simp add: lit_def cafe_com_def)
  have n: "URI_netloc sample_idna_encode ?p = Inr (lit ''example.com'')"
    using URI_netloc_port_zero [of ?p "lit ''example.com''" sample_idna_encode]
    by (simp add: e decode_ascii_ascii)
  have r: "sample_urlunparse (lit ''https'', lit ''example.com'', lit ''/path'', [], [], [])
      = lit ''https://example.com/path''"
    by (simp add: sample_urlunparse_def startswith_def lit_def)
  show ?thesis
    by (simp add: UniformResourceIdentifier_init_def u n r encode_ascii_lit)
qed

text \<open>
  The specification's example for C6: with the port 8443 the stored form keeps the
  encoded host, the colon and the digits of the port.
\<close>

lemma URI_example_port_8443:
  "UniformResourceIdentifier_init sample_urlparse sample_urlunparse sample_idna_encode
      (Text (lit ''https://'' @ cafe_com @ lit '':8443/path'') :: (nat, nat) pyval) =
     Inr \<lparr>uri_value = lit ''https://'' @ cafe_com @ lit '':8443/path'',
          uri_encoded = ''https://xn--caf-dma.com:8443/path''\<rparr>"
proof -
  let ?p = "\<lparr>scheme = lit ''https'', netloc = cafe_com @ lit '':8443'', path = lit ''/path'',
             params = [], query = [], fragment = [],
             hostname = Some cafe_com, port = Inr (Some 8443)\<rparr>"
  have u: "sample_urlparse (lit ''https://'' @ cafe_com @ lit '':8443/path'') = Inr ?p"
    by (simp add: sample_urlparse_def)
  have e: "sample_idna_encode cafe_com = Inr ''xn--caf-dma.com''"
    by (simp add: sample_idna_encode_def cafe_com_def lit_def)
  have c: "cafe_com \<noteq> []"
    by (simp add: cafe_com_def)
  have n: "URI_netloc sample_idna_encode ?p = Inr (lit ''xn--caf-dma.com:8443'')"
    using URI_netloc_host_port [of ?p cafe_com 8443 sample_idna_encode] c
    by (simp add: e decode_ascii_ascii str_int_8443)
  have r: "sample_urlunparse
      (lit ''https'', lit ''xn--caf-dma.com:8443'', lit ''/path'', [], [], [])
      = lit ''https://xn--caf-dma.com:8443/path''"
    by (simp add: sample_urlunparse_def startswith_def lit_def)
  show ?thesis
    by (simp add: UniformResourceIdentifier_init_def u n r encode_ascii_lit)
qed

text \<open>
  C7, as the code has it: two RFC822Names are equal exactly when their values are equal,
  and so are two UniformResourceIdentifiers; the value of an instance is the text it was
  built from, so two built instances are equal exactly when their inputs were, whatever
  parser and codec built the encoded forms. Two DNSNames are equal exactly when their
  byte forms are equal; two DNSNames built from the same input are equal.
\<close>

theorem C7_equality:
  "(\<forall>a b. RFC822Name_eq a (GN_RFC822Name b :: ('n, 'o) general_name) =
        Some (rfc822_value a = rfc822_value b))
   \<and> (\<forall>a b. UniformResourceIdentifier_eq a
          (GN_UniformResourceIdentifier b :: ('n, 'o) general_name) =
        Some (uri_value a = uri_value b))
   \<and> (\<forall>a b. DNSName_eq a (GN_DNSName b :: ('n, 'o) general_name) =
        Some (bytes_value a = bytes_value b))
   \<and> (\<forall>pa enc pa' enc' (v :: ('n, 'o) pyval) v' a b.
        RFC822Name_init pa enc v = Inr a \<and> RFC822Name_init pa' enc' v' = Inr b \<longrightarrow>
        (RFC822Name_eq a (GN_RFC822Name b :: ('n, 'o) general_name) = Some True) = (v = v'))
   \<and> (\<forall>up uu enc up' uu' enc' (v :: ('n, 'o) pyval) v' a b.
        UniformResourceIdentifier_init up uu enc v = Inr a
        \<and> UniformResourceIdentifier_init up' uu' enc' v' = Inr b \<longrightarrow>
        (UniformResourceIdentifier_eq a
           (GN_UniformResourceIdentifier b :: ('n, 'o) general_name) = Some True) = (v = v'))
   \<and> (\<forall>enc (v :: ('n, 'o) pyval) a b w w'.
        DNSName_init enc v = Inr (a, w) \<and> DNSName_init enc v = Inr (b, w') \<longrightarrow>
        DNSName_eq a (GN_DNSName b :: ('n, 'o) general_name) = Some True)"
proof (intro conjI allI impI)
  fix pa enc pa' enc' and v v' :: "('n, 'o) pyval" and a b
  assume "RFC822Name_init pa enc v = Inr a \<and> RFC822Name_init pa' enc' v' = Inr b"
  then have "v = Text (rfc822_value a)" "v' = Text (rfc822_value b)"
    by (auto dest: RFC822Name_init_value)
  then show "(RFC822Name_eq a (GN_RFC822Name b :: ('n, 'o) general_name) = Some True) = (v = v')"
    by (simp add: RFC822Name_eq_def)
next
  fix up uu enc up' uu' enc' and v v' :: "('n, 'o) pyval" and a b
  assume "UniformResourceIdentifier_init up uu enc v = Inr a
        \<and> UniformResourceIdentifier_init up' uu' enc' v' = Inr b"
  then have "v = Text (uri_value a)" "v' = Text (uri_value b)"
    by (auto dest: UniformResourceIdentifier_init_value)
  then show "(UniformResourceIdentifier_eq a
           (GN_UniformResourceIdentifier b :: ('n, 'o) general_name) = Some True) = (v = v')"
    by (simp add: UniformResourceIdentifier_eq_def)
qed (auto simp add: RFC822Name_eq_def UniformResourceIdentifier_eq_def DNSName_eq_def)

text \<open>Instances of C7: two addresses that differ, and an address and itself.\<close>

theorem C7_witness:
  "RFC822Name_eq \<lparr>rfc822_value = lit ''postmaster'', rfc822_encoded = ''postmaster''\<rparr>
      (GN_RFC822Name \<lparr>rfc822_value = lit ''user@'' @ cafe_com,
                       rfc822_encoded = ''user@xn--caf-dma.com''\<rparr> :: (nat, nat) general_name)
     \<noteq> Some True
   \<and> RFC822Name_eq \<lparr>rfc822_value = lit ''postmaster'', rfc822_encoded = ''postmaster''\<rparr>
      (GN_RFC822Name \<lparr>rfc822_value = lit ''postmaster'',
                       rfc822_encoded = ''postmaster''\<rparr> :: (nat, nat) general_name)
     = Some True"
proof -
  note T = C7_equality [where ?'n = nat and ?'o = nat]
  note T4 = T [THEN conjunct2, THEN conjunct2, THEN conjunct2, THEN conjunct1, rule_format]
  have d: "(Text (lit ''postmaster'') :: (nat, nat) pyval) \<noteq> Text (lit ''user@'' @ cafe_com)"
    by (simp add: lit_def)
  show ?thesis
    using T4 [OF conjI [OF sample_RFC822Name_postmaster sample_RFC822Name_cafe]]
      T4 [OF conjI [OF sample_RFC822Name_postmaster sample_RFC822Name_postmaster]] d
    by simp
qed

text \<open>
  C7 as stated fails for DNSName: the text \<^verbatim>\<open>caf\<acute>e.com\<close>, the text \<^verbatim>\<open>xn--caf-dma.com\<close>
  and the bytes \<^verbatim>\<open>xn--caf-dma.com\<close> are three different inputs, and the three instances
  hold the same bytes and are equal.
\<close>

theorem C7_counterexample:
  "DNSName_init sample_idna_encode (Text cafe_com :: (nat, nat) pyval) =
      Inr (\<lparr>bytes_value = ''xn--caf-dma.com''\<rparr>, [warn_idna_bytes])
   \<and> DNSName_init sample_idna_encode (Text (lit ''xn--caf-dma.com'') :: (nat, nat) pyval) =
      Inr (\<lparr>bytes_value = ''xn--caf-dma.com''\<rparr>, [warn_bytes])
   \<and> DNSName_init sample_idna_encode (Bytes ''xn--caf-dma.com'' :: (nat, nat) pyval) =
      Inr (\<lparr>bytes_value = ''xn--caf-dma.com''\<rparr>, [])
   \<and> DNSName_eq \<lparr>bytes_value = ''xn--caf-dma.com''\<rparr>
        (GN_DNSName \<lparr>bytes_value = ''xn--caf-dma.com''\<rparr> :: (nat, nat) general_name) = Some True
   \<and> cafe_com \<noteq> lit ''xn--caf-dma.com''
   \<and> (Text cafe_com :: (nat, nat) pyval) \<noteq> Bytes ''xn--caf-dma.com''"
proof -
  have na: "\<not> list_all (\<lambda>c. c < 128) cafe_com"
    by (simp add: cafe_com_def)
  have p: "\<not> startswith cafe_com (lit ''*.'')" "\<not> startswith cafe_com (lit ''.'')"
    by (simp_all add: startswith_def cafe_com_def lit_def)
  have 1: "DNSName_init sample_idna_encode (Text cafe_com :: (nat, nat) pyval) =
      Inr (\<lparr>bytes_value = ''xn--caf-dma.com''\<rparr>, [warn_idna_bytes])"
    by (simp add: DNSName_init_non_ascii na x_idna_encode_plain p sample_idna_encode_cafe)
  have a: "list_all (\<lambda>c. c < 128) (lit ''xn--caf-dma.com'')"
    by (simp add: lit_def)
  have 2: "DNSName_init sample_idna_encode (Text (lit ''xn--caf-dma.com'') :: (nat, nat) pyval) =
      Inr (\<lparr>bytes_value = ''xn--caf-dma.com''\<rparr>, [warn_bytes])"
    by (simp add: DNSName_init_ascii a)
  have 5: "cafe_com \<noteq> lit ''xn--caf-dma.com''"
    by (simp add: cafe_com_def lit_def)
  show ?thesis
    by (intro conjI 1 2 5) (simp_all add: DNSName_init_bytes DNSName_eq_def)
qed

text \<open>
  C8, as the code has it: DirectoryName accepts every \<^verbatim>\<open>Name\<close> and stores it as it is,
  and raises \<^verbatim>\<open>TypeError\<close> for any other value; RegisteredID does the same with
  \<^verbatim>\<open>ObjectIdentifier\<close>. IPAddress accepts every instance of one of the four classes it
  lists and stores it as it is: these are the addresses and networks, and also the
  interfaces, whose classes are subclasses of the address classes. It raises
  \<^verbatim>\<open>TypeError\<close> for every other value.
\<close>

theorem C8_kind_checks:
  "(\<forall>n. DirectoryName_init (NameV n :: ('n, 'o) pyval) = Inr \<lparr>directory_value = n\<rparr>)
   \<and> (\<forall>v :: ('n, 'o) pyval. (\<forall>n. v \<noteq> NameV n) \<longrightarrow>
        DirectoryName_init v = Inl (TypeError ''value must be a Name''))
   \<and> (\<forall>oid. RegisteredID_init (ObjectIdentifierV oid :: ('n, 'o) pyval) =
        Inr \<lparr>registered_value = oid\<rparr>)
   \<and> (\<forall>v :: ('n, 'o) pyval. (\<forall>oid. v \<noteq> ObjectIdentifierV oid) \<longrightarrow>
        RegisteredID_init v = Inl (TypeError ''value must be an ObjectIdentifier''))
   \<and> (\<forall>v :: ('n, 'o) pyval. isinstance_ip v \<longrightarrow> IPAddress_init v = Inr \<lparr>ip_value = v\<rparr>)
   \<and> (\<forall>v :: ('n, 'o) pyval. \<not> isinstance_ip v \<longrightarrow>
        (\<exists>m. IPAddress_init v = Inl (TypeError m)))
   \<and> (\<forall>v :: ('n, 'o) pyval. isinstance_ip v =
        ((\<exists>a. v = IPv4Address a) \<or> (\<exists>a. v = IPv6Address a)
         \<or> (\<exists>a l. v = IPv4Network a l) \<or> (\<exists>a l. v = IPv6Network a l)
         \<or> (\<exists>a l. v = IPv4Interface a l) \<or> (\<exists>a l. v = IPv6Interface a l)))"
  by (intro conjI allI impI isinstance_ip_iff DirectoryName_init_other RegisteredID_init_other)
    (simp_all add: DirectoryName_init_def RegisteredID_init_def IPAddress_init_def)

text \<open>
  Instances of C8: a value of the right kind and a text, for each constructor, and an
  interface for IPAddress.
\<close>

theorem C8_witness:
  "DirectoryName_init (NameV ''CN=example'' :: (string, nat list) pyval) =
      Inr \<lparr>directory_value = ''CN=example''\<rparr>
   \<and> DirectoryName_init (Text (lit ''CN=example'') :: (string, nat list) pyval) =
      Inl (TypeError ''value must be a Name'')
   \<and> RegisteredID_init (ObjectIdentifierV [2, 5, 4, 3] :: (string, nat list) pyval) =
      Inr \<lparr>registered_value = [2, 5, 4, 3]\<rparr>
   \<and> RegisteredID_init (Text (lit ''2.5.4.3'') :: (string, nat list) pyval) =
      Inl (TypeError ''value must be an ObjectIdentifier'')
   \<and> IPAddress_init (IPv4Network 0 0 :: (string, nat list) pyval) =
      Inr \<lparr>ip_value = IPv4Network 0 0\<rparr>
   \<and> IPAddress_init (IPv6Interface 1 128 :: (string, nat list) pyval) =
      Inr \<lparr>ip_value = IPv6Interface 1 128\<rparr>
   \<and> (\<exists>m. IPAddress_init (Text (lit ''127.0.0.1'') :: (string, nat list) pyval) =
      Inl (TypeError m))"
proof -
  note T = C8_kind_checks [where ?'n = string and ?'o = "nat list"]
  note T1 = T [THEN conjunct1, rule_format]
  note T2 = T [THEN conjunct2, THEN conjunct1, rule_format]
  note T3 = T [THEN conjunct2, THEN conjunct2, THEN conjunct1, rule_format]
  note T4 = T [THEN conjunct2, THEN conjunct2, THEN conjunct2, THEN conjunct1, rule_format]
  note T5 = T [THEN conjunct2, THEN conjunct2, THEN conjunct2, THEN conjunct2, THEN conjunct1,
      rule_format]
  note T6 = T [THEN conjunct2, THEN conjunct2, THEN conjunct2, THEN conjunct2, THEN conjunct2,
      THEN conjunct1, rule_format]
  show ?thesis
    by (intro conjI T1 T2 T3 T4 T5 T6) (simp_all add: isinstance_ip_iff)
qed

text \<open>
  C8 as stated fails for IPAddress: the interface 192.0.2.1/24 is an instance of
  \<^verbatim>\<open>IPv4Interface\<close>, which is none of the four classes listed, and the constructor
  accepts it, because \<^verbatim>\<open>IPv4Interface\<close> is a subclass of \<^verbatim>\<open>IPv4Address\<close>.
\<close>

theorem C8_counterexample:
  "IPAddress_init (IPv4Interface 3221225985 24 :: (string, nat list) pyval) =
      Inr \<lparr>ip_value = IPv4Interface 3221225985 24\<rparr>
   \<and> py_type (IPv4Interface 3221225985 24 :: (string, nat list) pyval) = C_IPv4Interface
   \<and> C_IPv4Interface \<notin> set [C_IPv4Address, C_IPv6Address, C_IPv4Network, C_IPv6Network]"
  by (simp add: IPAddress_init_def isinstance_ip_def isinstance_def issubclass_def)

text \<open>
  C9: OtherName stores the object identifier and the byte string it is given unchanged,
  so an instance determines both arguments; it raises \<^verbatim>\<open>TypeError\<close> when the type-id is
  not an object identifier, and when the payload is not a byte string; two OtherNames are
  equal exactly when their type-ids and their payloads are equal.
\<close>

theorem C9_OtherName:
  "(\<forall>oid b. OtherName_init (ObjectIdentifierV oid :: ('n, 'o) pyval) (Bytes b) =
        Inr \<lparr>other_type_id = oid, other_value = b\<rparr>)
   \<and> (\<forall>(t :: ('n, 'o) pyval) v r. OtherName_init t v = Inr r \<longrightarrow>
        t = ObjectIdentifierV (other_type_id r) \<and> v = Bytes (other_value r))
   \<and> (\<forall>(t :: ('n, 'o) pyval) v. (\<forall>oid. t \<noteq> ObjectIdentifierV oid) \<longrightarrow>
        OtherName_init t v = Inl (TypeError ''type_id must be an ObjectIdentifier''))
   \<and> (\<forall>oid (v :: ('n, 'o) pyval). (\<forall>b. v \<noteq> Bytes b) \<longrightarrow>
        OtherName_init (ObjectIdentifierV oid) v =
          Inl (TypeError ''value must be a binary string''))
   \<and> (\<forall>x y. OtherName_eq x (GN_OtherName y :: ('n, 'o) general_name) =
        Some (other_type_id x = other_type_id y \<and> other_value x = other_value y))
   \<and> (\<forall>x y. OtherName_eq x (GN_OtherName y :: ('n, 'o) general_name) = Some (x = y))"
  by (intro conjI allI impI OtherName_init_value OtherName_init_bad_type_id
      OtherName_init_bad_value)
    (auto simp add: OtherName_init_def OtherName_eq_def)

text \<open>Instances of C9: a well-formed pair, a text as type-id, and a text as payload.\<close>

theorem C9_witness:
  "OtherName_init (ObjectIdentifierV [1, 2, 3, 4] :: (string, nat list) pyval)
      (Bytes ''derpayload'') =
      Inr \<lparr>other_type_id = [1, 2, 3, 4], other_value = ''derpayload''\<rparr>
   \<and> OtherName_init (Text (lit ''1.2.3.4'') :: (string, nat list) pyval) (Bytes ''derpayload'') =
      Inl (TypeError ''type_id must be an ObjectIdentifier'')
   \<and> OtherName_init (ObjectIdentifierV [1, 2, 3, 4] :: (string, nat list) pyval)
      (Text (lit ''derpayload'')) =
      Inl (TypeError ''value must be a binary string'')"
proof -
  note T = C9_OtherName [where ?'n = string and ?'o = "nat list"]
  note T1 = T [THEN conjunct1, rule_format]
  note T3 = T [THEN conjunct2, THEN conjunct2, THEN conjunct1, rule_format]
  note T4 = T [THEN conjunct2, THEN conjunct2, THEN conjunct2, THEN conjunct1, rule_format]
  show ?thesis
    by (intro conjI T1 T3 T4) simp_all
qed

text \<open>
  C10: a DNSName built from the empty byte string holds the empty byte string, and its
  text accessor returns the empty text whatever the decoder does, also for a decoder
  that fails on every input: the decoder is not consulted.
\<close>

theorem C10_empty_bytes_value:
  "DNSName_init idna_encode (Bytes []) = Inr (\<lparr>bytes_value = []\<rparr>, [])
   \<and> DNSName_value idna_decode \<lparr>bytes_value = []\<rparr> = ([warn_bytes_value], Inr [])
   \<and> DNSName_value (\<lambda>b. Inl IDNAError) \<lparr>bytes_value = []\<rparr> = ([warn_bytes_value], Inr [])"
  by (simp add: DNSName_init_def DNSName_value_def)

end
